theory Spec2Isabelle
  imports Main "HOL-Library.Sublist"
begin

section \<open>The rule no-dead-link: data\<close>

text \<open>
  The model follows \<^verbatim>\<open>src/no-dead-link.js\<close>. JavaScript strings are \<^typ>\<open>string\<close>,
  a value that may be \<^verbatim>\<open>null\<close> or \<^verbatim>\<open>undefined\<close> is an \<^typ>\<open>'a option\<close>, numbers
  that hold positions are \<^typ>\<open>int\<close> (\<^verbatim>\<open>indexOf\<close> can answer \<open>-1\<close>), an HTTP status
  is a \<^typ>\<open>nat\<close>.
\<close>

datatype syntax_type = Document | Paragraph | Str | Link | BlockQuote | Html

text \<open>
  A node of the host document, as far as the rule reads it: its type, its source text
  \<^verbatim>\<open>node.raw\<close>, its target \<^verbatim>\<open>node.url\<close> (\<open>None\<close> when \<^verbatim>\<open>typeof node.url === 'undefined'\<close>)
  and the types of the nodes above it, innermost first (what \<^verbatim>\<open>helper.isChildNode\<close>
  walks through \<^verbatim>\<open>node.parent\<close>).
\<close>

record txt_node =
  node_type :: syntax_type
  raw :: string
  url :: "string option"
  parents :: "syntax_type list"

text \<open>\<^verbatim>\<open>DEFAULT_OPTIONS\<close> merged with the user's options (\<^verbatim>\<open>opts\<close>).\<close>

record options =
  checkRelative :: bool
  baseURI :: "string option"
  ignore :: "string list"
  preferGET :: "string list"

definition DEFAULT_OPTIONS :: options where
  "DEFAULT_OPTIONS = \<lparr>checkRelative = True, baseURI = None, ignore = [], preferGET = []\<rparr>"

text \<open>The second argument of \<^verbatim>\<open>fetch\<close>.\<close>

record fetch_opts =
  opt_method :: string
  opt_compress :: bool
  opt_redirect :: string

text \<open>
  A response of \<^verbatim>\<open>fetch\<close>: \<^verbatim>\<open>res.status\<close>, \<^verbatim>\<open>res.statusText\<close>, \<^verbatim>\<open>res.url\<close>. The flag
  \<^verbatim>\<open>res.ok\<close> is the getter of the Fetch standard: the status is in the range 200 to 299.
\<close>

record response =
  status :: nat
  statusText :: string
  res_url :: string

definition response_ok :: "response \<Rightarrow> bool" where
  "response_ok res = (200 \<le> status res \<and> status res \<le> 299)"

text \<open>
  An awaited promise either resolves with a value or rejects with an exception, of which
  the rule reads \<^verbatim>\<open>ex.message\<close> only.
\<close>

datatype 'a settled = Resolved 'a | Rejected string

text \<open>The value \<^verbatim>\<open>isAliveURI\<close> and \<^verbatim>\<open>isAliveLocalFile\<close> return. A field the object
  literal leaves out is \<^verbatim>\<open>undefined\<close>: \<open>False\<close> for the flag \<^verbatim>\<open>redirected\<close> (it is
  only tested for truth), \<open>None\<close> for the strings.\<close>

record probe_result =
  ok :: bool
  redirected :: bool
  redirectTo :: "string option"
  message :: "string option"

text \<open>An entry of \<^verbatim>\<open>URIs\<close>: \<^verbatim>\<open>{ node, uri, index }\<close>.\<close>

record occurrence =
  node :: txt_node
  uri :: string
  index :: int

text \<open>\<^verbatim>\<open>fixer.replaceTextRange([start, end], text)\<close>.\<close>

record fix_command =
  fix_range :: "int \<times> int"
  fix_text :: "string option"

text \<open>One call \<^verbatim>\<open>report(node, new RuleError(message, { fix, index }))\<close>.\<close>

record diagnostic =
  rep_node :: txt_node
  rep_message :: string
  rep_index :: int
  rep_fix :: "fix_command option"

text \<open>A probe the rule issues: a call of \<^verbatim>\<open>fetch\<close> or of \<^verbatim>\<open>fs.access\<close>.\<close>

datatype probe = Fetch string fetch_opts | Access string

text \<open>
  What the rule calls and does not define: Node's \<^verbatim>\<open>url\<close> and \<^verbatim>\<open>path\<close> modules,
  \<^verbatim>\<open>minimatch\<close>, \<^verbatim>\<open>get-url-origin\<close>, \<^verbatim>\<open>isomorphic-fetch\<close>, \<^verbatim>\<open>fs-extra\<close>, the
  regular-expression engine and the host's \<^verbatim>\<open>getFilePath\<close>. They are parameters of the
  model. The network and the file system are a world of any type \<open>'w\<close> that each call of
  \<^verbatim>\<open>fetch\<close> or \<^verbatim>\<open>fs.access\<close> reads and may change; \<^verbatim>\<open>fs.access\<close> answers \<open>None\<close> when
  it resolves and the error's message when it rejects.
\<close>

record 'w env =
  url_parse_host :: "string \<Rightarrow> string option"
  url_resolve :: "string \<Rightarrow> string \<Rightarrow> string"
  path_isAbsolute :: "string \<Rightarrow> bool"
  minimatch :: "string \<Rightarrow> string \<Rightarrow> bool"
  getURLOrigin :: "string \<Rightarrow> string option"
  fetch :: "string \<Rightarrow> fetch_opts \<Rightarrow> 'w \<Rightarrow> response settled \<times> 'w"
  fs_access :: "string \<Rightarrow> 'w \<Rightarrow> string option \<times> 'w"
  getFilePath :: "string option"
  URI_REGEXP_matches :: "string \<Rightarrow> (string \<times> int) list"

text \<open>
  The state of one run: the world, the probes issued so far (a record kept for the
  theorems, the rule does not read it), the diagnostics given to \<^verbatim>\<open>report\<close>, and the
  array \<^verbatim>\<open>URIs\<close> of the reporter.
\<close>

record 'w state =
  world :: 'w
  issued :: "probe list"
  reported :: "diagnostic list"
  URIs :: "occurrence list"

section \<open>JavaScript built-ins the rule uses\<close>

text \<open>\<^verbatim>\<open>String(n)\<close> for a natural number, as a template literal prints it.\<close>

fun show_nat :: "nat \<Rightarrow> string" where
  "show_nat n =
     (if n < 10 then [''0123456789'' ! n]
      else show_nat (n div 10) @ [''0123456789'' ! (n mod 10)])"

declare show_nat.simps [simp del]

text \<open>A string or \<^verbatim>\<open>undefined\<close> inside a template literal.\<close>

definition template :: "string option \<Rightarrow> string" where
  "template v = (case v of None \<Rightarrow> ''undefined'' | Some s \<Rightarrow> s)"

text \<open>Truth of a string that may be \<^verbatim>\<open>null\<close> or \<^verbatim>\<open>undefined\<close>, and \<^verbatim>\<open>a || b\<close> on
  such values and on numbers.\<close>

definition truthy :: "string option \<Rightarrow> bool" where
  "truthy v = (case v of None \<Rightarrow> False | Some s \<Rightarrow> s \<noteq> [])"

definition or_else :: "string option \<Rightarrow> string option \<Rightarrow> string option" where
  "or_else a b = (if truthy a then a else b)"

definition or_else_number :: "int \<Rightarrow> int \<Rightarrow> int" where
  "or_else_number a b = (if a \<noteq> 0 then a else b)"

text \<open>\<^verbatim>\<open>str.indexOf(s)\<close>: the first position where \<open>s\<close> starts in \<open>str\<close>, \<open>-1\<close> when
  there is none.\<close>

fun indexOf_from :: "string \<Rightarrow> string \<Rightarrow> int \<Rightarrow> int" where
  "indexOf_from [] s k = (if s = [] then k else - 1)"
| "indexOf_from (c # cs) s k =
     (if prefix s (c # cs) then k else indexOf_from cs s (k + 1))"

definition indexOf :: "string \<Rightarrow> string \<Rightarrow> int" where
  "indexOf str s = indexOf_from str s 0"

text \<open>
  \<^verbatim>\<open>filePath.replace(/[?#].*?$/, '')\<close>. Without the flag \<^verbatim>\<open>m\<close> the anchor \<^verbatim>\<open>$\<close> is the
  end of the string and \<^verbatim>\<open>.\<close> matches no line terminator, so the match starts at the
  first \<^verbatim>\<open>?\<close> or \<^verbatim>\<open>#\<close> that no line terminator follows and runs to the end.
\<close>

definition line_terminator :: "char \<Rightarrow> bool" where
  "line_terminator c = (c = CHR 0x0A \<or> c = CHR 0x0D)"

fun strip_query_fragment :: "string \<Rightarrow> string" where
  "strip_query_fragment [] = []"
| "strip_query_fragment (c # cs) =
     (if (c = CHR ''?'' \<or> c = CHR ''#'') \<and> \<not> list_ex line_terminator cs then []
      else c # strip_query_fragment cs)"

section \<open>The rule\<close>

definition isRelative :: "'w env \<Rightarrow> string \<Rightarrow> bool" where
  "isRelative e u = (case url_parse_host e u of None \<Rightarrow> True | Some host \<Rightarrow> host = [])"

definition isLocal :: "'w env \<Rightarrow> string \<Rightarrow> bool" where
  "isLocal e u = (if path_isAbsolute e u then True else isRelative e u)"

definition isRedirect :: "nat \<Rightarrow> bool" where
  "isRedirect code =
     (code = 301 \<or> code = 302 \<or> code = 303 \<or> code = 307 \<or> code = 308)"

definition isIgnored :: "'w env \<Rightarrow> string \<Rightarrow> string list \<Rightarrow> bool" where
  "isIgnored e u patterns = list_ex (\<lambda>pattern. minimatch e u pattern) patterns"

text \<open>A call of \<^verbatim>\<open>fetch\<close> and of \<^verbatim>\<open>fs.access\<close>: the world answers, the probe is noted.\<close>

definition do_fetch ::
  "'w env \<Rightarrow> string \<Rightarrow> fetch_opts \<Rightarrow> 'w state \<Rightarrow> response settled \<times> 'w state" where
  "do_fetch e u opts st =
     (case fetch e u opts (world st) of
        (answer, w) \<Rightarrow> (answer, st\<lparr>world := w, issued := issued st @ [Fetch u opts]\<rparr>))"

definition do_access :: "'w env \<Rightarrow> string \<Rightarrow> 'w state \<Rightarrow> string option \<times> 'w state" where
  "do_access e p st =
     (case fs_access e p (world st) of
        (answer, w) \<Rightarrow> (answer, st\<lparr>world := w, issued := issued st @ [Access p]\<rparr>))"

definition status_line :: "response \<Rightarrow> string" where
  "status_line res = show_nat (status res) @ '' '' @ statusText res"

text \<open>
  \<^verbatim>\<open>isAliveURI(uri, method)\<close>. An \<^verbatim>\<open>async\<close> function answers with a promise; the model
  gives the value the promise settles with, and the state reached then. Both awaits
  stand in the \<^verbatim>\<open>try\<close> block, so a rejection of either call of \<^verbatim>\<open>fetch\<close> reaches the
  \<^verbatim>\<open>catch\<close> block. The promise of the second attempt is returned as it is.
\<close>

function isAliveURI ::
  "'w env \<Rightarrow> string \<Rightarrow> string \<Rightarrow> 'w state \<Rightarrow> probe_result settled \<times> 'w state" where
  "isAliveURI e u method st =
     (let opts = \<lparr>opt_method = method, opt_compress = False, opt_redirect = ''manual''\<rparr> in
      case do_fetch e u opts st of
        (Rejected ex, st1) \<Rightarrow>
          if method = ''HEAD'' then isAliveURI e u ''GET'' st1
          else (Resolved \<lparr>ok = False, redirected = False, redirectTo = None,
                          message = Some ex\<rparr>, st1)
      | (Resolved res, st1) \<Rightarrow>
          if isRedirect (status res) then
            (case do_fetch e u (opts\<lparr>opt_redirect := ''follow''\<rparr>) st1 of
               (Rejected ex, st2) \<Rightarrow>
                 if method = ''HEAD'' then isAliveURI e u ''GET'' st2
                 else (Resolved \<lparr>ok = False, redirected = False, redirectTo = None,
                                 message = Some ex\<rparr>, st2)
             | (Resolved finalRes, st2) \<Rightarrow>
                 (Resolved \<lparr>ok = response_ok finalRes, redirected = True,
                            redirectTo = Some (res_url finalRes),
                            message = Some (status_line res)\<rparr>, st2))
          else if \<not> response_ok res \<and> method = ''HEAD'' then isAliveURI e u ''GET'' st1
          else (Resolved \<lparr>ok = response_ok res, redirected = False, redirectTo = None,
                          message = Some (status_line res)\<rparr>, st1))"
  by pat_completeness auto
termination
  by (relation "measure (\<lambda>(e, u, method, st). if method = ''HEAD'' then 1 else 0)") auto

declare isAliveURI.simps [simp del]

text \<open>\<^verbatim>\<open>isAliveLocalFile(filePath)\<close>.\<close>

definition isAliveLocalFile ::
  "'w env \<Rightarrow> string \<Rightarrow> 'w state \<Rightarrow> probe_result settled \<times> 'w state" where
  "isAliveLocalFile e filePath st =
     (case do_access e (strip_query_fragment filePath) st of
        (None, st1) \<Rightarrow>
          (Resolved \<lparr>ok = True, redirected = False, redirectTo = None, message = None\<rparr>, st1)
      | (Some ex, st1) \<Rightarrow>
          (Resolved \<lparr>ok = False, redirected = False, redirectTo = None, message = Some ex\<rparr>,
           st1))"

definition report :: "diagnostic \<Rightarrow> 'w state \<Rightarrow> 'w state" where
  "report d st = st\<lparr>reported := reported st @ [d]\<rparr>"

text \<open>The method \<^verbatim>\<open>lint\<close> chooses for a URI (lines 170 to 175).\<close>

definition choose_method :: "'w env \<Rightarrow> options \<Rightarrow> string \<Rightarrow> string" where
  "choose_method e opts u =
     (if 0 < length (filter (\<lambda>origin. getURLOrigin e u = getURLOrigin e origin) (preferGET opts))
      then ''GET'' else ''HEAD'')"

text \<open>
  \<^verbatim>\<open>lint\<close> from line 170 on, for the URI \<open>u\<close> that the variable \<^verbatim>\<open>uri\<close> holds there:
  the occurrence's own, or the one \<^verbatim>\<open>URL.resolve\<close> gave. An awaited promise that
  rejects makes \<^verbatim>\<open>lint\<close> reject with the same exception.
\<close>

definition lint_resolved ::
  "'w env \<Rightarrow> options \<Rightarrow> txt_node \<Rightarrow> string \<Rightarrow> int \<Rightarrow> 'w state \<Rightarrow> unit settled \<times> 'w state" where
  "lint_resolved e opts n u i st =
     (let method = choose_method e opts u in
      case (if isLocal e u then isAliveLocalFile e u st else isAliveURI e u method st) of
        (Rejected ex, st1) \<Rightarrow> (Rejected ex, st1)
      | (Resolved result, st1) \<Rightarrow>
          (Resolved (),
           if \<not> ok result then
             report \<lparr>rep_node = n,
                     rep_message = u @ '' is dead. ('' @ template (message result) @ '')'',
                     rep_index = i, rep_fix = None\<rparr> st1
           else if redirected result then
             report \<lparr>rep_node = n,
                     rep_message = u @ '' is redirected to '' @ template (redirectTo result)
                       @ ''. ('' @ template (message result) @ '')'',
                     rep_index = i,
                     rep_fix = Some \<lparr>fix_range = (i, i + int (length u)),
                                      fix_text = redirectTo result\<rparr>\<rparr> st1
           else st1))"

definition unresolved_message :: string where
  "unresolved_message =
     ''Unable to resolve the relative URI. Please check if the base URI is correctly specified.''"

text \<open>
  \<^verbatim>\<open>lint({ node, uri, index })\<close>, run to its end, when each of its calls of
  \<^verbatim>\<open>minimatch\<close>, \<^verbatim>\<open>URL.parse\<close>, \<^verbatim>\<open>URL.resolve\<close> and \<^verbatim>\<open>getURLOrigin\<close> returns. These
  calls stand outside every \<^verbatim>\<open>try\<close> block; what \<^verbatim>\<open>lint\<close> does when one of them throws
  is said by \<open>lint_started\<close> below.
\<close>

definition lint ::
  "'w env \<Rightarrow> options \<Rightarrow> occurrence \<Rightarrow> 'w state \<Rightarrow> unit settled \<times> 'w state" where
  "lint e opts item st =
     (if isIgnored e (uri item) (ignore opts) then (Resolved (), st)
      else if isRelative e (uri item) then
        (if \<not> checkRelative opts then (Resolved (), st)
         else
           (let filePath = getFilePath e;
                base = or_else (baseURI opts) filePath
            in if \<not> truthy base then
                 (Resolved (),
                  report \<lparr>rep_node = node item, rep_message = unresolved_message,
                          rep_index = index item, rep_fix = None\<rparr> st)
               else lint_resolved e opts (node item)
                      (url_resolve e (the base) (uri item)) (index item) st))
      else lint_resolved e opts (node item) (uri item) (index item) st)"

text \<open>\<^verbatim>\<open>helper.isChildNode(node, types)\<close>: some node above has one of the types.\<close>

definition isChildNode :: "txt_node \<Rightarrow> syntax_type list \<Rightarrow> bool" where
  "isChildNode n types = list_ex (\<lambda>t. t \<in> set types) (parents n)"

text \<open>The handler of \<^verbatim>\<open>Syntax.Str\<close>; \<^verbatim>\<open>getSource(node)\<close> is the node's source text.\<close>

definition Str_handler :: "'w env \<Rightarrow> txt_node \<Rightarrow> 'w state \<Rightarrow> 'w state" where
  "Str_handler e n st =
     (if isChildNode n [BlockQuote] then st
      else if isChildNode n [Link] then st
      else st\<lparr>URIs := URIs st @
             map (\<lambda>(u, i). \<lparr>node = n, uri = u, index = i\<rparr>) (URI_REGEXP_matches e (raw n))\<rparr>)"

text \<open>The handler of \<^verbatim>\<open>Syntax.Link\<close>.\<close>

definition Link_handler :: "txt_node \<Rightarrow> 'w state \<Rightarrow> 'w state" where
  "Link_handler n st =
     (if isChildNode n [BlockQuote] then st
      else case url n of
        None \<Rightarrow> st
      | Some u \<Rightarrow>
          st\<lparr>URIs := URIs st @
            [\<lparr>node = n, uri = u, index = or_else_number (indexOf (raw n) u) 0\<rparr>]\<rparr>)"

text \<open>The option records of the two calls of \<^verbatim>\<open>fetch\<close>, and the result of a failed
  request.\<close>

abbreviation manual :: "string \<Rightarrow> fetch_opts" where
  "manual m \<equiv> \<lparr>opt_method = m, opt_compress = False, opt_redirect = ''manual''\<rparr>"

abbreviation follow :: "string \<Rightarrow> fetch_opts" where
  "follow m \<equiv> \<lparr>opt_method = m, opt_compress = False, opt_redirect = ''follow''\<rparr>"

abbreviation dead :: "string \<Rightarrow> probe_result" where
  "dead ex \<equiv> \<lparr>ok = False, redirected = False, redirectTo = None, message = Some ex\<rparr>"

section \<open>The end of the document\<close>

text \<open>
  A library call can throw. For each of the four libraries that \<^verbatim>\<open>lint\<close> calls outside
  a \<^verbatim>\<open>try\<close> block, the message of the exception the call throws on given arguments, or
  \<open>None\<close> when it returns (the value is then the one the environment gives).
\<close>

record throws =
  minimatch_throws :: "string \<Rightarrow> string \<Rightarrow> string option"
  URL_parse_throws :: "string \<Rightarrow> string option"
  URL_resolve_throws :: "string \<Rightarrow> string \<Rightarrow> string option"
  getURLOrigin_throws :: "string \<Rightarrow> string option"

text \<open>
  The state of a promise is \<open>None\<close> while it is pending and the value it settled with
  afterwards.

  \<^verbatim>\<open>ignore.some((pattern) => minimatch(uri, pattern))\<close> calls \<^verbatim>\<open>minimatch\<close> on the patterns
  in turn and stops at the first that matches; the filter of \<^verbatim>\<open>preferGET\<close> calls
  \<^verbatim>\<open>getURLOrigin(uri)\<close> and then \<^verbatim>\<open>getURLOrigin(origin)\<close> for every entry; \<^verbatim>\<open>isLocal\<close> calls
  \<^verbatim>\<open>URL.parse\<close> unless the path is absolute. The first call that throws ends the
  evaluation.
\<close>

fun isIgnored_throws :: "'w env \<Rightarrow> throws \<Rightarrow> string \<Rightarrow> string list \<Rightarrow> string option" where
  "isIgnored_throws e t u [] = None"
| "isIgnored_throws e t u (pattern # patterns) =
     (case minimatch_throws t u pattern of
        Some ex \<Rightarrow> Some ex
      | None \<Rightarrow> if minimatch e u pattern then None else isIgnored_throws e t u patterns)"

fun choose_method_throws :: "throws \<Rightarrow> string \<Rightarrow> string list \<Rightarrow> string option" where
  "choose_method_throws t u [] = None"
| "choose_method_throws t u (origin # origins) =
     (case getURLOrigin_throws t u of
        Some ex \<Rightarrow> Some ex
      | None \<Rightarrow>
          (case getURLOrigin_throws t origin of
             Some ex \<Rightarrow> Some ex
           | None \<Rightarrow> choose_method_throws t u origins))"

definition isLocal_throws :: "'w env \<Rightarrow> throws \<Rightarrow> string \<Rightarrow> string option" where
  "isLocal_throws e t u = (if path_isAbsolute e u then None else URL_parse_throws t u)"

text \<open>
  The call \<^verbatim>\<open>lint(item)\<close> that \<^verbatim>\<open>URIs.map\<close> makes runs \<^verbatim>\<open>lint\<close> up to its first
  \<^verbatim>\<open>await\<close> that has to wait, and answers with the promise of \<^verbatim>\<open>lint\<close>. At that
  point the promise is resolved (one of the three early returns was taken, the report
  of the missing base made), rejected (a library call threw: an exception in an
  \<^verbatim>\<open>async\<close> function rejects its promise) or pending: then \<^verbatim>\<open>isAliveLocalFile\<close> has
  called \<^verbatim>\<open>fs.access\<close>, or \<^verbatim>\<open>isAliveURI\<close> has called \<^verbatim>\<open>fetch\<close>, and the call is noted
  as issued; the world has not answered yet. \<open>lint_resolved_started\<close> is the part from
  line 170 on.
\<close>

definition lint_resolved_started ::
  "'w env \<Rightarrow> throws \<Rightarrow> options \<Rightarrow> string \<Rightarrow> 'w state \<Rightarrow> unit settled option \<times> 'w state" where
  "lint_resolved_started e t opts u st =
     (case choose_method_throws t u (preferGET opts) of
        Some ex \<Rightarrow> (Some (Rejected ex), st)
      | None \<Rightarrow>
          (case isLocal_throws e t u of
             Some ex \<Rightarrow> (Some (Rejected ex), st)
           | None \<Rightarrow>
               (None,
                st\<lparr>issued := issued st @
                  [if isLocal e u then Access (strip_query_fragment u)
                   else Fetch u (manual (choose_method e opts u))]\<rparr>)))"

definition lint_started ::
  "'w env \<Rightarrow> throws \<Rightarrow> options \<Rightarrow> occurrence \<Rightarrow> 'w state \<Rightarrow> unit settled option \<times> 'w state" where
  "lint_started e t opts item st =
     (case isIgnored_throws e t (uri item) (ignore opts) of
        Some ex \<Rightarrow> (Some (Rejected ex), st)
      | None \<Rightarrow>
          if isIgnored e (uri item) (ignore opts) then (Some (Resolved ()), st)
          else
            (case URL_parse_throws t (uri item) of
               Some ex \<Rightarrow> (Some (Rejected ex), st)
             | None \<Rightarrow>
                 if isRelative e (uri item) then
                   (if \<not> checkRelative opts then (Some (Resolved ()), st)
                    else
                      (let filePath = getFilePath e;
                           base = or_else (baseURI opts) filePath
                       in if \<not> truthy base then
                            (Some (Resolved ()),
                             report \<lparr>rep_node = node item, rep_message = unresolved_message,
                                     rep_index = index item, rep_fix = None\<rparr> st)
                          else
                            (case URL_resolve_throws t (the base) (uri item) of
                               Some ex \<Rightarrow> (Some (Rejected ex), st)
                             | None \<Rightarrow>
                                 lint_resolved_started e t opts
                                   (url_resolve e (the base) (uri item)) st)))
                 else lint_resolved_started e t opts (uri item) st))"

text \<open>
  The handler of \<^verbatim>\<open>Document:exit\<close>: \<^verbatim>\<open>Promise.all(URIs.map((item) => lint(item)))\<close>.
  \<^verbatim>\<open>map\<close> starts the checks in the order of \<^verbatim>\<open>URIs\<close>; none of them goes on before
  all are started. The promise of \<^verbatim>\<open>Promise.all\<close> is rejected as soon as one of the
  promises is, with the first rejection; it is resolved when all of them are; it is
  pending otherwise. \<open>Document_exit\<close> gives its state when the handler has returned and
  no call of \<^verbatim>\<open>fetch\<close> or \<^verbatim>\<open>fs.access\<close> is answered yet, with the states of the
  promises of the checks.
\<close>

fun lint_started_each ::
  "'w env \<Rightarrow> throws \<Rightarrow> options \<Rightarrow> occurrence list \<Rightarrow> 'w state \<Rightarrow>
     unit settled option list \<times> 'w state" where
  "lint_started_each e t opts [] st = ([], st)"
| "lint_started_each e t opts (item # items) st =
     (case lint_started e t opts item st of
        (p, st1) \<Rightarrow>
          (case lint_started_each e t opts items st1 of (ps, st2) \<Rightarrow> (p # ps, st2)))"

fun Promise_all :: "'a settled option list \<Rightarrow> 'a list settled option" where
  "Promise_all [] = Some (Resolved [])"
| "Promise_all (Some (Rejected ex) # ps) = Some (Rejected ex)"
| "Promise_all (Some (Resolved v) # ps) =
     (case Promise_all ps of
        Some (Rejected ex) \<Rightarrow> Some (Rejected ex)
      | Some (Resolved vs) \<Rightarrow> Some (Resolved (v # vs))
      | None \<Rightarrow> None)"
| "Promise_all (None # ps) =
     (case Promise_all ps of Some (Rejected ex) \<Rightarrow> Some (Rejected ex) | _ \<Rightarrow> None)"

definition Document_exit ::
  "'w env \<Rightarrow> throws \<Rightarrow> options \<Rightarrow> 'w state \<Rightarrow>
     unit list settled option \<times> unit settled option list \<times> 'w state" where
  "Document_exit e t opts st =
     (case lint_started_each e t opts (URIs st) st of (ps, st1) \<Rightarrow> (Promise_all ps, ps, st1))"

section \<open>An example environment\<close>

text \<open>
  A small world on which the theorems below are tried: one site, \<^verbatim>\<open>example.com\<close>, and one
  directory of files. Each function answers as the library it stands for does on the
  URIs used here: \<^verbatim>\<open>URL.parse(u).host\<close>, \<^verbatim>\<open>getURLOrigin(u)\<close>, \<^verbatim>\<open>path.isAbsolute(p)\<close> on
  POSIX, \<^verbatim>\<open>URL.resolve(base, rel)\<close> for a plain file name \<open>rel\<close>, and \<^verbatim>\<open>minimatch\<close> for
  a pattern without wildcards. The world counts the calls it served.
\<close>

definition example_host :: "string \<Rightarrow> string option" where
  "example_host u = (if prefix ''http://example.com/'' u then Some ''example.com'' else None)"

definition example_origin :: "string \<Rightarrow> string option" where
  "example_origin u =
     (if prefix ''http://example.com'' u then Some ''http://example.com'' else None)"

definition example_isAbsolute :: "string \<Rightarrow> bool" where
  "example_isAbsolute p = (case p of [] \<Rightarrow> False | c # cs \<Rightarrow> c = CHR ''/'')"

definition example_resolve :: "string \<Rightarrow> string \<Rightarrow> string" where
  "example_resolve base rel = rev (dropWhile (\<lambda>c. c \<noteq> CHR ''/'') (rev base)) @ rel"

definition example_fetch :: "string \<Rightarrow> fetch_opts \<Rightarrow> nat \<Rightarrow> response settled \<times> nat" where
  "example_fetch u opts w =
     (if u = ''http://example.com/old'' then
        (if opt_redirect opts = ''manual''
         then Resolved \<lparr>status = 301, statusText = ''Moved Permanently'', res_url = u\<rparr>
         else Resolved \<lparr>status = 200, statusText = ''OK'',
                res_url = ''http://example.com/new''\<rparr>)
      else if u = ''http://example.com/docs/guide.html'' then
        (if opt_redirect opts = ''manual''
         then Resolved \<lparr>status = 302, statusText = ''Found'', res_url = u\<rparr>
         else Resolved \<lparr>status = 200, statusText = ''OK'',
                res_url = ''http://example.com/manual/guide.html''\<rparr>)
      else if u = ''http://example.com/nohead'' then
        (if opt_method opts = ''HEAD''
         then Resolved \<lparr>status = 405, statusText = ''Method Not Allowed'', res_url = u\<rparr>
         else Resolved \<lparr>status = 200, statusText = ''OK'', res_url = u\<rparr>)
      else if u = ''http://example.com/down'' then
        (if opt_method opts = ''HEAD'' then Rejected ''socket hang up''
         else Rejected ''connect ECONNREFUSED'')
      else if u = ''http://example.com/loop'' then
        (if opt_redirect opts = ''manual''
         then Resolved \<lparr>status = 302, statusText = ''Found'', res_url = u\<rparr>
         else Rejected ''maximum redirect reached at: http://example.com/loop'')
      else if u = ''http://example.com/gone'' then
        Resolved \<lparr>status = 404, statusText = ''Not Found'', res_url = u\<rparr>
      else Resolved \<lparr>status = 200, statusText = ''OK'', res_url = u\<rparr>,
      w + 1)"

definition example_access :: "string \<Rightarrow> nat \<Rightarrow> string option \<times> nat" where
  "example_access p w =
     (if p = ''/home/me/doc/README.md'' then None
      else Some (''ENOENT: no such file or directory, access '' @ p), w + 1)"

definition example_env :: "nat env" where
  "example_env =
     \<lparr>url_parse_host = example_host, url_resolve = example_resolve,
      path_isAbsolute = example_isAbsolute, minimatch = (\<lambda>u pattern. u = pattern),
      getURLOrigin = example_origin, fetch = example_fetch, fs_access = example_access,
      getFilePath = Some ''/home/me/doc/README.md'', URI_REGEXP_matches = (\<lambda>s. [])\<rparr>"

definition example_state :: "nat state" where
  "example_state = \<lparr>world = 0, issued = [], reported = [], URIs = []\<rparr>"

definition example_link :: "string \<Rightarrow> string \<Rightarrow> txt_node" where
  "example_link source target =
     \<lparr>node_type = Link, raw = source, url = Some target, parents = [Paragraph, Document]\<rparr>"

text \<open>\<^verbatim>\<open>URL.parse\<close> throws \<^verbatim>\<open>URIError: URI malformed\<close> on a URI whose user part is not
  a well-formed percent-encoding; no other call used here throws.\<close>

definition example_throws :: throws where
  "example_throws =
     \<lparr>minimatch_throws = (\<lambda>u pattern. None),
      URL_parse_throws =
        (\<lambda>u. if u = ''http://%E0%A4%A@example.com/'' then Some ''URI malformed'' else None),
      URL_resolve_throws = (\<lambda>base u. None),
      getURLOrigin_throws = (\<lambda>u. None)\<rparr>"

lemmas example_defs =
  example_env_def example_state_def example_link_def example_host_def example_origin_def
  example_isAbsolute_def example_resolve_def example_fetch_def example_access_def

section \<open>How the probes unfold\<close>

lemma isRedirect_iff: "isRedirect code \<longleftrightarrow> code \<in> {301, 302, 303, 307, 308}"
  by (auto simp: isRedirect_def)

lemma isIgnored_iff:
  "isIgnored e u patterns \<longleftrightarrow> (\<exists>pattern \<in> set patterns. minimatch e u pattern)"
  by (simp add: isIgnored_def list_ex_iff)

lemma remote_not_relative: "\<not> isLocal e u \<Longrightarrow> \<not> isRelative e u"
  by (simp add: isLocal_def split: if_splits)

text \<open>With any method but \<^verbatim>\<open>HEAD\<close> there is no second attempt.\<close>

lemma isAliveURI_last_attempt:
  "m \<noteq> ''HEAD'' \<Longrightarrow> isAliveURI e u m st =
     (case do_fetch e u (manual m) st of
        (Rejected ex, st1) \<Rightarrow> (Resolved (dead ex), st1)
      | (Resolved res, st1) \<Rightarrow>
          if isRedirect (status res) then
            (case do_fetch e u (follow m) st1 of
               (Rejected ex, st2) \<Rightarrow> (Resolved (dead ex), st2)
             | (Resolved finalRes, st2) \<Rightarrow>
                 (Resolved \<lparr>ok = response_ok finalRes, redirected = True,
                            redirectTo = Some (res_url finalRes),
                            message = Some (status_line res)\<rparr>, st2))
          else (Resolved \<lparr>ok = response_ok res, redirected = False, redirectTo = None,
                          message = Some (status_line res)\<rparr>, st1))"
  by (subst isAliveURI.simps) (simp split: prod.splits settled.splits)

lemmas isAliveURI_GET = isAliveURI_last_attempt [of "''GET''", simplified]

lemma isAliveURI_HEAD:
  "isAliveURI e u ''HEAD'' st =
     (case do_fetch e u (manual ''HEAD'') st of
        (Rejected ex, st1) \<Rightarrow> isAliveURI e u ''GET'' st1
      | (Resolved res, st1) \<Rightarrow>
          if isRedirect (status res) then
            (case do_fetch e u (follow ''HEAD'') st1 of
               (Rejected ex, st2) \<Rightarrow> isAliveURI e u ''GET'' st2
             | (Resolved finalRes, st2) \<Rightarrow>
                 (Resolved \<lparr>ok = response_ok finalRes, redirected = True,
                            redirectTo = Some (res_url finalRes),
                            message = Some (status_line res)\<rparr>, st2))
          else if \<not> response_ok res then isAliveURI e u ''GET'' st1
          else (Resolved \<lparr>ok = response_ok res, redirected = False, redirectTo = None,
                          message = Some (status_line res)\<rparr>, st1))"
  by (subst isAliveURI.simps) (simp split: prod.splits settled.splits)

text \<open>What \<^verbatim>\<open>lint\<close> does with a remote URI that is not ignored.\<close>

lemma lint_remote:
  "\<not> isIgnored e u (ignore opts) \<Longrightarrow> \<not> isLocal e u \<Longrightarrow>
   lint e opts \<lparr>node = n, uri = u, index = i\<rparr> st =
     (case isAliveURI e u (choose_method e opts u) st of
        (Rejected ex, st1) \<Rightarrow> (Rejected ex, st1)
      | (Resolved result, st1) \<Rightarrow>
          (Resolved (),
           if \<not> ok result then
             report \<lparr>rep_node = n,
                     rep_message = u @ '' is dead. ('' @ template (message result) @ '')'',
                     rep_index = i, rep_fix = None\<rparr> st1
           else if redirected result then
             report \<lparr>rep_node = n,
                     rep_message = u @ '' is redirected to '' @ template (redirectTo result)
                       @ ''. ('' @ template (message result) @ '')'',
                     rep_index = i,
                     rep_fix = Some \<lparr>fix_range = (i, i + int (length u)),
                                      fix_text = redirectTo result\<rparr>\<rparr> st1
           else st1))"
  by (simp add: lint_def lint_resolved_def remote_not_relative Let_def)

lemma redirect_probe:
  assumes "fetch e u (manual m) (world st) = (Resolved res, w1)"
    and "isRedirect (status res)"
    and "fetch e u (follow m) w1 = (Resolved finalRes, w2)"
  shows "isAliveURI e u m st =
           (Resolved \<lparr>ok = response_ok finalRes, redirected = True,
                      redirectTo = Some (res_url finalRes),
                      message = Some (show_nat (status res) @ '' '' @ statusText res)\<rparr>,
            st\<lparr>world := w2, issued := issued st @ [Fetch u (manual m), Fetch u (follow m)]\<rparr>)"
  using assms by (subst isAliveURI.simps) (simp add: do_fetch_def status_line_def)

lemma head_retry_status:
  assumes "fetch e u (manual ''HEAD'') (world st) = (Resolved res, w1)"
    and "\<not> isRedirect (status res)" and "\<not> response_ok res"
  shows "isAliveURI e u ''HEAD'' st =
     isAliveURI e u ''GET'' (st\<lparr>world := w1, issued := issued st @ [Fetch u (manual ''HEAD'')]\<rparr>)"
  using assms by (simp add: isAliveURI_HEAD do_fetch_def)

lemma head_retry_throw:
  assumes "fetch e u (manual ''HEAD'') (world st) = (Rejected ex, w1)"
  shows "isAliveURI e u ''HEAD'' st =
     isAliveURI e u ''GET'' (st\<lparr>world := w1, issued := issued st @ [Fetch u (manual ''HEAD'')]\<rparr>)"
  using assms by (simp add: isAliveURI_HEAD do_fetch_def)

lemma head_retry_follow_throw:
  assumes "fetch e u (manual ''HEAD'') (world st) = (Resolved res, w1)"
    and "isRedirect (status res)"
    and "fetch e u (follow ''HEAD'') w1 = (Rejected ex, w2)"
  shows "isAliveURI e u ''HEAD'' st =
     isAliveURI e u ''GET''
       (st\<lparr>world := w2,
          issued := issued st @ [Fetch u (manual ''HEAD''), Fetch u (follow ''HEAD'')]\<rparr>)"
  using assms by (simp add: isAliveURI_HEAD do_fetch_def)

lemma get_throw:
  assumes "fetch e u (manual ''GET'') (world st) = (Rejected ex, w1)"
  shows "isAliveURI e u ''GET'' st =
     (Resolved (dead ex), st\<lparr>world := w1, issued := issued st @ [Fetch u (manual ''GET'')]\<rparr>)"
  using assms by (simp add: isAliveURI_GET do_fetch_def)

lemma get_follow_throw:
  assumes "fetch e u (manual ''GET'') (world st) = (Resolved res, w1)"
    and "isRedirect (status res)"
    and "fetch e u (follow ''GET'') w1 = (Rejected ex, w2)"
  shows "isAliveURI e u ''GET'' st =
     (Resolved (dead ex),
      st\<lparr>world := w2,
         issued := issued st @ [Fetch u (manual ''GET''), Fetch u (follow ''GET'')]\<rparr>)"
  using assms by (simp add: isAliveURI_GET do_fetch_def)

lemma get_success:
  assumes "fetch e u (manual ''GET'') (world st) = (Resolved res, w1)"
    and "response_ok res"
  shows "isAliveURI e u ''GET'' st =
     (Resolved \<lparr>ok = True, redirected = False, redirectTo = None,
                message = Some (status_line res)\<rparr>,
      st\<lparr>world := w1, issued := issued st @ [Fetch u (manual ''GET'')]\<rparr>)"
  using assms by (auto simp add: isAliveURI_GET do_fetch_def isRedirect_def response_ok_def)

text \<open>The probes of an attempt that is not made with \<^verbatim>\<open>HEAD\<close>, and the first probe of
  one that is.\<close>

lemma last_attempt_probes:
  "m \<noteq> ''HEAD'' \<Longrightarrow>
   \<exists>ps. issued (snd (isAliveURI e u m st)) = issued st @ Fetch u (manual m) # ps
     \<and> (ps = [] \<or> ps = [Fetch u (follow m)])"
  by (simp add: isAliveURI_last_attempt do_fetch_def split: prod.splits settled.splits)

lemma head_attempt_probes:
  "\<exists>ps. issued (snd (isAliveURI e u ''HEAD'' st)) = issued st @ Fetch u (manual ''HEAD'') # ps"
proof -
  have get: "\<exists>ps. issued (snd (isAliveURI e u ''GET'' s)) = issued s @ ps" for s :: "'a state"
    using last_attempt_probes [of "''GET''" e u s] by auto
  show ?thesis
  proof (cases "do_fetch e u (manual ''HEAD'') st")
    case (Pair a st1)
    then have st1: "issued st1 = issued st @ [Fetch u (manual ''HEAD'')]"
      by (auto simp: do_fetch_def split: prod.splits)
    show ?thesis
    proof (cases a)
      case (Rejected ex)
      with Pair st1 get [of st1] show ?thesis by (auto simp: isAliveURI_HEAD)
    next
      case (Resolved res)
      show ?thesis
      proof (cases "isRedirect (status res)")
        case False
        with Pair Resolved st1 get [of st1] show ?thesis by (auto simp: isAliveURI_HEAD)
      next
        case True
        show ?thesis
        proof (cases "do_fetch e u (follow ''HEAD'') st1")
          case second: (Pair b st2)
          then have st2: "issued st2 = issued st1 @ [Fetch u (follow ''HEAD'')]"
            by (auto simp: do_fetch_def split: prod.splits)
          with Pair Resolved True second st1 get [of st2] show ?thesis
            by (cases b) (auto simp: isAliveURI_HEAD)
        qed
      qed
    qed
  qed
qed

text \<open>The probes never touch the diagnostics, and always resolve.\<close>

lemma do_fetch_reported: "do_fetch e u opts st = (a, st1) \<Longrightarrow> reported st1 = reported st"
  by (auto simp: do_fetch_def split: prod.splits)

lemma last_attempt_settles:
  "m \<noteq> ''HEAD'' \<Longrightarrow>
   \<exists>r. fst (isAliveURI e u m st) = Resolved r
     \<and> reported (snd (isAliveURI e u m st)) = reported st"
  by (auto simp: isAliveURI_last_attempt do_fetch_def split: prod.splits settled.splits)

lemma isAliveURI_settles:
  "\<exists>r. fst (isAliveURI e u m st) = Resolved r
     \<and> reported (snd (isAliveURI e u m st)) = reported st"
proof (cases "m = ''HEAD''")
  case False
  then show ?thesis by (rule last_attempt_settles)
next
  case True
  have get: "\<exists>r. fst (isAliveURI e u ''GET'' s) = Resolved r
     \<and> reported (snd (isAliveURI e u ''GET'' s)) = reported s" for s :: "'a state"
    by (rule last_attempt_settles) simp
  show ?thesis
  proof (cases "do_fetch e u (manual ''HEAD'') st")
    case (Pair a st1)
    note st1 = do_fetch_reported [OF Pair]
    show ?thesis
    proof (cases a)
      case (Rejected ex)
      with Pair st1 get [of st1] True show ?thesis by (auto simp: isAliveURI_HEAD)
    next
      case (Resolved res)
      show ?thesis
      proof (cases "isRedirect (status res)")
        case False
        with Pair Resolved st1 get [of st1] True show ?thesis by (auto simp: isAliveURI_HEAD)
      next
        case redirect: True
        show ?thesis
        proof (cases "do_fetch e u (follow ''HEAD'') st1")
          case second: (Pair b st2)
          note st2 = do_fetch_reported [OF second]
          with Pair Resolved redirect second st1 get [of st2] True show ?thesis
            by (cases b) (auto simp: isAliveURI_HEAD)
        qed
      qed
    qed
  qed
qed

lemma isAliveLocalFile_settles:
  "\<exists>r. fst (isAliveLocalFile e p st) = Resolved r
     \<and> reported (snd (isAliveLocalFile e p st)) = reported st"
  by (auto simp: isAliveLocalFile_def do_access_def split: prod.splits option.splits)


section \<open>The classifier\<close>

text \<open>
  Claim C8. \<open>isRelative\<close> holds exactly when the host of the parsed URI is absent or
  empty; \<open>isLocal\<close> holds exactly when the URI is an absolute path or is relative; a
  URI with a non-empty host that is not an absolute path is remote.
\<close>

theorem classify_host_and_path:
  "(isRelative e u \<longleftrightarrow> url_parse_host e u = None \<or> url_parse_host e u = Some [])
   \<and> (isLocal e u \<longleftrightarrow> path_isAbsolute e u \<or> isRelative e u)
   \<and> (\<forall>host. url_parse_host e u = Some host \<and> host \<noteq> [] \<and> \<not> path_isAbsolute e u
         \<longrightarrow> \<not> isLocal e u)"
  by (auto simp: isRelative_def isLocal_def split: option.splits)

theorem classify_host_and_path_witness:
  "isRelative example_env ''guide.html''
   \<and> isLocal example_env ''/home/me/doc/README.md''
   \<and> url_parse_host example_env ''http://example.com/old'' = Some ''example.com''
   \<and> \<not> path_isAbsolute example_env ''http://example.com/old''
   \<and> \<not> isLocal example_env ''http://example.com/old''"
  using classify_host_and_path [of example_env "''guide.html''"]
    classify_host_and_path [of example_env "''/home/me/doc/README.md''"]
    classify_host_and_path [of example_env "''http://example.com/old''"]
  by (simp add: example_defs)

text \<open>
  Claim C7. When some pattern of the ignore list matches the URI, \<open>lint\<close> returns at
  once: it resolves and leaves the state as it was, so the world saw no probe and no
  diagnostic was reported, whatever the world would have answered. The empty list, which
  is the default, ignores no URI.
\<close>

theorem ignored_uri_is_skipped:
  "((\<exists>pattern \<in> set (ignore opts). minimatch e (uri item) pattern)
      \<longrightarrow> lint e opts item st = (Resolved (), st))
   \<and> \<not> isIgnored e u []
   \<and> ignore DEFAULT_OPTIONS = []"
  by (simp add: lint_def isIgnored_iff DEFAULT_OPTIONS_def)

theorem ignored_uri_is_skipped_witness:
  "minimatch example_env ''http://example.com/gone'' ''http://example.com/gone''
   \<and> lint example_env (DEFAULT_OPTIONS\<lparr>ignore := [''*.png'', ''http://example.com/gone'']\<rparr>)
        \<lparr>node = example_link ''[x](http://example.com/gone)'' ''http://example.com/gone'',
         uri = ''http://example.com/gone'', index = 4\<rparr> example_state
       = (Resolved (), example_state)
   \<and> reported (snd (lint example_env DEFAULT_OPTIONS
        \<lparr>node = example_link ''[x](http://example.com/gone)'' ''http://example.com/gone'',
         uri = ''http://example.com/gone'', index = 4\<rparr> example_state)) \<noteq> []"
proof -
  have dead_without: "reported (snd (lint example_env DEFAULT_OPTIONS
        \<lparr>node = example_link ''[x](http://example.com/gone)'' ''http://example.com/gone'',
         uri = ''http://example.com/gone'', index = 4\<rparr> example_state)) \<noteq> []"
    by (simp add: lint_def lint_resolved_def isIgnored_def DEFAULT_OPTIONS_def isRelative_def
        isLocal_def choose_method_def example_defs isAliveURI_HEAD isAliveURI_GET do_fetch_def
        isRedirect_def response_ok_def report_def)
  show ?thesis
    using ignored_uri_is_skipped
      [of "DEFAULT_OPTIONS\<lparr>ignore := [''*.png'', ''http://example.com/gone'']\<rparr>" example_env
        "\<lparr>node = example_link ''[x](http://example.com/gone)'' ''http://example.com/gone'',
          uri = ''http://example.com/gone'', index = 4\<rparr>" example_state]
      dead_without
    by (simp add: example_env_def)
qed

section \<open>The offset of a link\<close>

text \<open>\<open>indexOf\<close> answers \<open>-1\<close> or a position from the start on.\<close>

lemma indexOf_from_range: "indexOf_from str s k = - 1 \<or> k \<le> indexOf_from str s k"
  by (induction str s k rule: indexOf_from.induct) auto

lemma indexOf_from_found:
  "0 \<le> k \<Longrightarrow> indexOf_from str s k \<noteq> - 1 \<Longrightarrow>
   prefix s (drop (nat (indexOf_from str s k - k)) str)"
proof (induction str s k rule: indexOf_from.induct)
  case (1 s k)
  then show ?case by (simp split: if_splits)
next
  case (2 c cs s k)
  show ?case
  proof (cases "prefix s (c # cs)")
    case True
    then show ?thesis by simp
  next
    case False
    with 2 have found: "prefix s (drop (nat (indexOf_from cs s (k + 1) - (k + 1))) cs)"
      by simp
    from 2 False indexOf_from_range [of cs s "k + 1"]
    have "k + 1 \<le> indexOf_from cs s (k + 1)" by auto
    then have "nat (indexOf_from cs s (k + 1) - k) = Suc (nat (indexOf_from cs s (k + 1) - (k + 1)))"
      by simp
    with False found show ?thesis by simp
  qed
qed

lemma indexOf_from_missing:
  "0 \<le> k \<Longrightarrow> \<forall>j. \<not> prefix s (drop j str) \<Longrightarrow> indexOf_from str s k = - 1"
proof (induction str s k rule: indexOf_from.induct)
  case (1 s k)
  from 1(2) [rule_format, of 0] show ?case by simp
next
  case (2 c cs s k)
  from 2(3) [rule_format, of 0] have no: "\<not> prefix s (c # cs)" by simp
  have "\<forall>j. \<not> prefix s (drop j cs)"
  proof
    fix j
    from 2(3) [rule_format, of "Suc j"] show "\<not> prefix s (drop j cs)" by simp
  qed
  with 2 no show ?case by simp
qed

text \<open>
  What the handler of a link stores when the target is nowhere in the source text: the
  operator \<^verbatim>\<open>||\<close> keeps \<open>-1\<close>, which is not zero.
\<close>

lemma link_offset_when_missing:
  assumes "\<not> isChildNode n [BlockQuote]" and "url n = Some u"
    and "\<forall>j. \<not> prefix u (drop j (raw n))"
  shows "URIs (Link_handler n st) = URIs st @ [\<lparr>node = n, uri = u, index = - 1\<rparr>]"
  using assms indexOf_from_missing [of 0 u "raw n"]
  by (simp add: Link_handler_def indexOf_def or_else_number_def)

lemma indexOf_from_minus_one:
  "0 \<le> k \<Longrightarrow> indexOf_from str s k = - 1 \<Longrightarrow> \<not> prefix s (drop j str)"
proof (induction str s k arbitrary: j rule: indexOf_from.induct)
  case (1 s k)
  then show ?case by (simp split: if_splits)
next
  case (2 c cs s k)
  from 2(2,3) have no: "\<not> prefix s (c # cs)" by (auto split: if_splits)
  with 2 have rest: "\<not> prefix s (drop i cs)" for i by simp
  show ?case
  proof (cases j)
    case 0
    with no show ?thesis by simp
  next
    case (Suc i)
    with rest [of i] show ?thesis by simp
  qed
qed

text \<open>When the target does stand in the source text, the offset is a position of it.\<close>

lemma link_offset_when_found:
  assumes "\<not> isChildNode n [BlockQuote]" and "url n = Some u"
    and "prefix u (drop j (raw n))"
  shows "\<exists>k. URIs (Link_handler n st) = URIs st @ [\<lparr>node = n, uri = u, index = int k\<rparr>]
     \<and> prefix u (drop k (raw n))"
proof -
  let ?i = "indexOf_from (raw n) u 0"
  from assms(3) indexOf_from_minus_one [of 0 "raw n" u j] have found: "?i \<noteq> - 1" by auto
  with indexOf_from_range [of "raw n" u 0] have pos: "0 \<le> ?i" by auto
  from found indexOf_from_found [of 0 "raw n" u] have "prefix u (drop (nat ?i) (raw n))"
    by simp
  moreover from assms(1,2) pos
  have "URIs (Link_handler n st) = URIs st @ [\<lparr>node = n, uri = u, index = int (nat ?i)\<rparr>]"
    by (simp add: Link_handler_def indexOf_def or_else_number_def)
  ultimately show ?thesis by blast
qed

text \<open>
  Claim C4. The source text \<^verbatim>\<open>[a](http://example.com/?x=1&amp;y=2)\<close> is a link whose
  target is \<^verbatim>\<open>http://example.com/?x=1&y=2\<close>: the entity is decoded in the target, which
  is therefore not a part of the source text. The occurrence gets the offset \<open>-1\<close>, not
  \<open>0\<close>.
\<close>

theorem link_offset_not_found_example:
  "URIs (Link_handler
       (example_link ''[a](http://example.com/?x=1&amp;y=2)'' ''http://example.com/?x=1&y=2'')
       example_state)
   = [\<lparr>node = example_link ''[a](http://example.com/?x=1&amp;y=2)''
                ''http://example.com/?x=1&y=2'',
       uri = ''http://example.com/?x=1&y=2'', index = - 1\<rparr>]
   \<and> indexOf ''[a](http://example.com/?x=1&amp;y=2)'' ''http://example.com/?x=1&y=2'' = - 1"
  by (simp add: Link_handler_def example_link_def example_state_def isChildNode_def
      indexOf_def or_else_number_def)


section \<open>Redirects\<close>

text \<open>
  Claim C1. Let the first response to a request with method \<open>m\<close> have a redirect status
  (301, 302, 303, 307 or 308) and let the second request resolve. Then the prober issued
  exactly two requests for the URI, the second one equal to the first but for
  \<^verbatim>\<open>redirect: 'follow'\<close>, and its result has the success flag of the final response, the
  flag \<open>redirected\<close>, the final response's URL as target and the status and status text
  of the first response as message. If moreover the URI is a remote one that is not
  ignored, \<open>m\<close> is the method \<open>lint\<close> chooses and the final response is successful,
  \<open>lint\<close> reports one diagnostic: its fix replaces the range from the offset to the
  offset plus the length of the URI by the final URL, and its message holds the status
  of the first response.
\<close>

theorem redirect_followed_and_reported:
  assumes first: "fetch e u (manual m) (world st) = (Resolved res, w1)"
    and redirect: "status res \<in> {301, 302, 303, 307, 308}"
    and final: "fetch e u (follow m) w1 = (Resolved finalRes, w2)"
  shows "isAliveURI e u m st =
           (Resolved \<lparr>ok = response_ok finalRes, redirected = True,
                      redirectTo = Some (res_url finalRes),
                      message = Some (show_nat (status res) @ '' '' @ statusText res)\<rparr>,
            st\<lparr>world := w2, issued := issued st @ [Fetch u (manual m), Fetch u (follow m)]\<rparr>)
     \<and> (\<not> isIgnored e u (ignore opts) \<and> \<not> isLocal e u \<and> choose_method e opts u = m
          \<and> response_ok finalRes \<longrightarrow>
        lint e opts \<lparr>node = n, uri = u, index = i\<rparr> st =
          (Resolved (),
           st\<lparr>world := w2,
              issued := issued st @ [Fetch u (manual m), Fetch u (follow m)],
              reported := reported st @
                [\<lparr>rep_node = n,
                  rep_message = u @ '' is redirected to '' @ res_url finalRes @ ''. (''
                    @ show_nat (status res) @ '' '' @ statusText res @ '')'',
                  rep_index = i,
                  rep_fix = Some \<lparr>fix_range = (i, i + int (length u)),
                                   fix_text = Some (res_url finalRes)\<rparr>\<rparr>]\<rparr>))"
proof -
  have probe: "isAliveURI e u m st =
           (Resolved \<lparr>ok = response_ok finalRes, redirected = True,
                      redirectTo = Some (res_url finalRes),
                      message = Some (show_nat (status res) @ '' '' @ statusText res)\<rparr>,
            st\<lparr>world := w2, issued := issued st @ [Fetch u (manual m), Fetch u (follow m)]\<rparr>)"
    using first redirect final by (intro redirect_probe) (simp_all add: isRedirect_iff)
  show ?thesis
    using probe by (auto simp: lint_remote report_def template_def)
qed

theorem redirect_followed_and_reported_witness:
  "fetch example_env ''http://example.com/old'' (manual ''HEAD'') (world example_state) =
     (Resolved \<lparr>status = 301, statusText = ''Moved Permanently'',
                 res_url = ''http://example.com/old''\<rparr>, 1)
   \<and> fetch example_env ''http://example.com/old'' (follow ''HEAD'') 1 =
     (Resolved \<lparr>status = 200, statusText = ''OK'', res_url = ''http://example.com/new''\<rparr>, 2)
   \<and> \<not> isIgnored example_env ''http://example.com/old'' (ignore DEFAULT_OPTIONS)
   \<and> \<not> isLocal example_env ''http://example.com/old''
   \<and> choose_method example_env DEFAULT_OPTIONS ''http://example.com/old'' = ''HEAD''
   \<and> reported (snd (lint example_env DEFAULT_OPTIONS
         \<lparr>node = example_link ''[a](http://example.com/old)'' ''http://example.com/old'',
          uri = ''http://example.com/old'', index = 4\<rparr> example_state)) =
       [\<lparr>rep_node = example_link ''[a](http://example.com/old)'' ''http://example.com/old'',
         rep_message =
           ''http://example.com/old is redirected to http://example.com/new. (301 Moved Permanently)'',
         rep_index = 4,
         rep_fix = Some \<lparr>fix_range = (4, 26), fix_text = Some ''http://example.com/new''\<rparr>\<rparr>]"
proof -
  have first: "fetch example_env ''http://example.com/old'' (manual ''HEAD'') (world example_state) =
     (Resolved \<lparr>status = 301, statusText = ''Moved Permanently'',
                 res_url = ''http://example.com/old''\<rparr>, 1)"
    by (simp add: example_defs)
  have redirect: "status \<lparr>status = 301, statusText = ''Moved Permanently'',
                 res_url = ''http://example.com/old''\<rparr> \<in> {301, 302, 303, 307, 308}"
    by simp
  have final: "fetch example_env ''http://example.com/old'' (follow ''HEAD'') 1 =
     (Resolved \<lparr>status = 200, statusText = ''OK'', res_url = ''http://example.com/new''\<rparr>, 2)"
    by (simp add: example_defs)
  have remote: "\<not> isIgnored example_env ''http://example.com/old'' (ignore DEFAULT_OPTIONS)
     \<and> \<not> isLocal example_env ''http://example.com/old''
     \<and> choose_method example_env DEFAULT_OPTIONS ''http://example.com/old'' = ''HEAD''"
    by (simp add: isIgnored_def isLocal_def isRelative_def choose_method_def DEFAULT_OPTIONS_def
        example_defs)
  show ?thesis
    using redirect_followed_and_reported [OF first redirect final, of DEFAULT_OPTIONS
        "example_link ''[a](http://example.com/old)'' ''http://example.com/old''" 4]
      first final remote
    by (simp add: response_ok_def show_nat.simps example_state_def)
qed

section \<open>The second attempt\<close>

text \<open>
  Claim C2. A probe with \<^verbatim>\<open>HEAD\<close> whose response is neither a redirect nor successful
  (status outside 200 to 299), or whose request is rejected (the first one, or the one
  that follows a redirect), gives the result of the whole probe made again with \<^verbatim>\<open>GET\<close>
  in the state reached. The probe with \<^verbatim>\<open>GET\<close> issues one or two requests, all of them
  with \<^verbatim>\<open>GET\<close>, and is not made again: when a request of it is rejected, the result is
  not ok and carries the message of that rejection. For a remote URI that is not ignored
  and that \<open>lint\<close> probes with \<^verbatim>\<open>HEAD\<close> first: when the request with \<^verbatim>\<open>GET\<close> is
  rejected too, the one diagnostic carries the message of the rejection of \<^verbatim>\<open>GET\<close>; when
  the second attempt succeeds, that is, the response to \<^verbatim>\<open>GET\<close> has a status from 200
  to 299, no diagnostic is reported.
\<close>

theorem head_failure_retried_with_get:
  "(fetch e u (manual ''HEAD'') (world st) = (Resolved res, w1)
        \<and> status res \<notin> {301, 302, 303, 307, 308}
        \<and> \<not> (200 \<le> status res \<and> status res \<le> 299)
      \<longrightarrow> isAliveURI e u ''HEAD'' st =
          isAliveURI e u ''GET''
            (st\<lparr>world := w1, issued := issued st @ [Fetch u (manual ''HEAD'')]\<rparr>))
   \<and> (fetch e u (manual ''HEAD'') (world st) = (Rejected ex, w1)
      \<longrightarrow> isAliveURI e u ''HEAD'' st =
          isAliveURI e u ''GET''
            (st\<lparr>world := w1, issued := issued st @ [Fetch u (manual ''HEAD'')]\<rparr>))
   \<and> (fetch e u (manual ''HEAD'') (world st) = (Resolved res, w1)
        \<and> status res \<in> {301, 302, 303, 307, 308}
        \<and> fetch e u (follow ''HEAD'') w1 = (Rejected ex, w2)
      \<longrightarrow> isAliveURI e u ''HEAD'' st =
          isAliveURI e u ''GET''
            (st\<lparr>world := w2,
               issued := issued st @ [Fetch u (manual ''HEAD''), Fetch u (follow ''HEAD'')]\<rparr>))
   \<and> (\<exists>ps. issued (snd (isAliveURI e u ''GET'' st)) = issued st @ ps
        \<and> (ps = [Fetch u (manual ''GET'')]
           \<or> ps = [Fetch u (manual ''GET''), Fetch u (follow ''GET'')]))
   \<and> (fetch e u (manual ''GET'') (world st) = (Rejected ex, w1)
      \<longrightarrow> isAliveURI e u ''GET'' st =
          (Resolved \<lparr>ok = False, redirected = False, redirectTo = None, message = Some ex\<rparr>,
           st\<lparr>world := w1, issued := issued st @ [Fetch u (manual ''GET'')]\<rparr>))
   \<and> (fetch e u (manual ''GET'') (world st) = (Resolved res, w1)
        \<and> status res \<in> {301, 302, 303, 307, 308}
        \<and> fetch e u (follow ''GET'') w1 = (Rejected ex, w2)
      \<longrightarrow> isAliveURI e u ''GET'' st =
          (Resolved \<lparr>ok = False, redirected = False, redirectTo = None, message = Some ex\<rparr>,
           st\<lparr>world := w2,
              issued := issued st @ [Fetch u (manual ''GET''), Fetch u (follow ''GET'')]\<rparr>))
   \<and> (fetch e u (manual ''HEAD'') (world st) = (a, w1)
        \<and> (case a of Rejected ex1 \<Rightarrow> True
            | Resolved res1 \<Rightarrow> status res1 \<notin> {301, 302, 303, 307, 308}
                \<and> \<not> (200 \<le> status res1 \<and> status res1 \<le> 299))
        \<and> fetch e u (manual ''GET'') w1 = (Rejected ex, w2)
        \<and> \<not> isIgnored e u (ignore opts) \<and> \<not> isLocal e u \<and> choose_method e opts u = ''HEAD''
      \<longrightarrow> lint e opts \<lparr>node = n, uri = u, index = i\<rparr> st =
          (Resolved (),
           st\<lparr>world := w2,
              issued := issued st @ [Fetch u (manual ''HEAD''), Fetch u (manual ''GET'')],
              reported := reported st @
                [\<lparr>rep_node = n, rep_message = u @ '' is dead. ('' @ ex @ '')'',
                  rep_index = i, rep_fix = None\<rparr>]\<rparr>))
   \<and> (fetch e u (manual ''HEAD'') (world st) = (a, w1)
        \<and> (case a of Rejected ex1 \<Rightarrow> True
            | Resolved res1 \<Rightarrow> status res1 \<notin> {301, 302, 303, 307, 308}
                \<and> \<not> (200 \<le> status res1 \<and> status res1 \<le> 299))
        \<and> fetch e u (manual ''GET'') w1 = (Resolved res2, w2)
        \<and> 200 \<le> status res2 \<and> status res2 \<le> 299
        \<and> \<not> isIgnored e u (ignore opts) \<and> \<not> isLocal e u \<and> choose_method e opts u = ''HEAD''
      \<longrightarrow> lint e opts \<lparr>node = n, uri = u, index = i\<rparr> st =
          (Resolved (),
           st\<lparr>world := w2,
              issued := issued st @ [Fetch u (manual ''HEAD''), Fetch u (manual ''GET'')]\<rparr>))"
proof (intro conjI impI)
  assume "fetch e u (manual ''HEAD'') (world st) = (Resolved res, w1)
        \<and> status res \<notin> {301, 302, 303, 307, 308}
        \<and> \<not> (200 \<le> status res \<and> status res \<le> 299)"
  then show "isAliveURI e u ''HEAD'' st =
          isAliveURI e u ''GET''
            (st\<lparr>world := w1, issued := issued st @ [Fetch u (manual ''HEAD'')]\<rparr>)"
    by (intro head_retry_status) (auto simp: isRedirect_iff response_ok_def)
next
  assume "fetch e u (manual ''HEAD'') (world st) = (Rejected ex, w1)"
  then show "isAliveURI e u ''HEAD'' st =
          isAliveURI e u ''GET''
            (st\<lparr>world := w1, issued := issued st @ [Fetch u (manual ''HEAD'')]\<rparr>)"
    by (rule head_retry_throw)
next
  assume "fetch e u (manual ''HEAD'') (world st) = (Resolved res, w1)
        \<and> status res \<in> {301, 302, 303, 307, 308}
        \<and> fetch e u (follow ''HEAD'') w1 = (Rejected ex, w2)"
  then show "isAliveURI e u ''HEAD'' st =
          isAliveURI e u ''GET''
            (st\<lparr>world := w2,
               issued := issued st @ [Fetch u (manual ''HEAD''), Fetch u (follow ''HEAD'')]\<rparr>)"
    by (intro head_retry_follow_throw [where res = res and ex = ex])
      (auto simp: isRedirect_iff)
next
  from last_attempt_probes [of "''GET''" e u st]
  show "\<exists>ps. issued (snd (isAliveURI e u ''GET'' st)) = issued st @ ps
        \<and> (ps = [Fetch u (manual ''GET'')]
           \<or> ps = [Fetch u (manual ''GET''), Fetch u (follow ''GET'')])"
    by auto
next
  assume "fetch e u (manual ''GET'') (world st) = (Rejected ex, w1)"
  then show "isAliveURI e u ''GET'' st =
          (Resolved \<lparr>ok = False, redirected = False, redirectTo = None, message = Some ex\<rparr>,
           st\<lparr>world := w1, issued := issued st @ [Fetch u (manual ''GET'')]\<rparr>)"
    by (rule get_throw)
next
  assume "fetch e u (manual ''GET'') (world st) = (Resolved res, w1)
        \<and> status res \<in> {301, 302, 303, 307, 308}
        \<and> fetch e u (follow ''GET'') w1 = (Rejected ex, w2)"
  then show "isAliveURI e u ''GET'' st =
          (Resolved \<lparr>ok = False, redirected = False, redirectTo = None, message = Some ex\<rparr>,
           st\<lparr>world := w2,
              issued := issued st @ [Fetch u (manual ''GET''), Fetch u (follow ''GET'')]\<rparr>)"
    by (intro get_follow_throw [where res = res]) (auto simp: isRedirect_iff)
next
  assume h: "fetch e u (manual ''HEAD'') (world st) = (a, w1)
        \<and> (case a of Rejected ex1 \<Rightarrow> True
            | Resolved res1 \<Rightarrow> status res1 \<notin> {301, 302, 303, 307, 308}
                \<and> \<not> (200 \<le> status res1 \<and> status res1 \<le> 299))
        \<and> fetch e u (manual ''GET'') w1 = (Rejected ex, w2)
        \<and> \<not> isIgnored e u (ignore opts) \<and> \<not> isLocal e u \<and> choose_method e opts u = ''HEAD''"
  let ?st1 = "st\<lparr>world := w1, issued := issued st @ [Fetch u (manual ''HEAD'')]\<rparr>"
  from h have "isAliveURI e u ''HEAD'' st = isAliveURI e u ''GET'' ?st1"
    by (cases a) (simp_all add: head_retry_status head_retry_throw isRedirect_iff response_ok_def)
  moreover from h have "isAliveURI e u ''GET'' ?st1 =
      (Resolved (dead ex),
       ?st1\<lparr>world := w2, issued := issued ?st1 @ [Fetch u (manual ''GET'')]\<rparr>)"
    by (intro get_throw) auto
  ultimately show "lint e opts \<lparr>node = n, uri = u, index = i\<rparr> st =
          (Resolved (),
           st\<lparr>world := w2,
              issued := issued st @ [Fetch u (manual ''HEAD''), Fetch u (manual ''GET'')],
              reported := reported st @
                [\<lparr>rep_node = n, rep_message = u @ '' is dead. ('' @ ex @ '')'',
                  rep_index = i, rep_fix = None\<rparr>]\<rparr>)"
    using h by (simp add: lint_remote report_def template_def)
next
  assume h: "fetch e u (manual ''HEAD'') (world st) = (a, w1)
        \<and> (case a of Rejected ex1 \<Rightarrow> True
            | Resolved res1 \<Rightarrow> status res1 \<notin> {301, 302, 303, 307, 308}
                \<and> \<not> (200 \<le> status res1 \<and> status res1 \<le> 299))
        \<and> fetch e u (manual ''GET'') w1 = (Resolved res2, w2)
        \<and> 200 \<le> status res2 \<and> status res2 \<le> 299
        \<and> \<not> isIgnored e u (ignore opts) \<and> \<not> isLocal e u \<and> choose_method e opts u = ''HEAD''"
  let ?st1 = "st\<lparr>world := w1, issued := issued st @ [Fetch u (manual ''HEAD'')]\<rparr>"
  from h have "isAliveURI e u ''HEAD'' st = isAliveURI e u ''GET'' ?st1"
    by (cases a) (simp_all add: head_retry_status head_retry_throw isRedirect_iff response_ok_def)
  moreover from h have "isAliveURI e u ''GET'' ?st1 =
      (Resolved \<lparr>ok = True, redirected = False, redirectTo = None,
                 message = Some (status_line res2)\<rparr>,
       ?st1\<lparr>world := w2, issued := issued ?st1 @ [Fetch u (manual ''GET'')]\<rparr>)"
    by (intro get_success) (auto simp: response_ok_def)
  ultimately show "lint e opts \<lparr>node = n, uri = u, index = i\<rparr> st =
          (Resolved (),
           st\<lparr>world := w2,
              issued := issued st @ [Fetch u (manual ''HEAD''), Fetch u (manual ''GET'')]\<rparr>)"
    using h by (simp add: lint_remote)
qed

theorem head_failure_retried_with_get_witness:
  "fetch example_env ''http://example.com/nohead'' (manual ''HEAD'') (world example_state) =
     (Resolved \<lparr>status = 405, statusText = ''Method Not Allowed'',
                 res_url = ''http://example.com/nohead''\<rparr>, 1)
   \<and> fetch example_env ''http://example.com/nohead'' (manual ''GET'') 1 =
     (Resolved \<lparr>status = 200, statusText = ''OK'', res_url = ''http://example.com/nohead''\<rparr>, 2)
   \<and> isAliveURI example_env ''http://example.com/nohead'' ''HEAD'' example_state =
       isAliveURI example_env ''http://example.com/nohead'' ''GET''
         (example_state\<lparr>world := 1,
            issued := [Fetch ''http://example.com/nohead'' (manual ''HEAD'')]\<rparr>)
   \<and> lint example_env DEFAULT_OPTIONS
        \<lparr>node = example_link ''[a](http://example.com/nohead)'' ''http://example.com/nohead'',
         uri = ''http://example.com/nohead'', index = 4\<rparr> example_state =
       (Resolved (),
        example_state\<lparr>world := 2,
          issued := [Fetch ''http://example.com/nohead'' (manual ''HEAD''),
                     Fetch ''http://example.com/nohead'' (manual ''GET'')]\<rparr>)
   \<and> fetch example_env ''http://example.com/down'' (manual ''HEAD'') (world example_state) =
     (Rejected ''socket hang up'', 1)
   \<and> fetch example_env ''http://example.com/down'' (manual ''GET'') 1 =
     (Rejected ''connect ECONNREFUSED'', 2)
   \<and> isAliveURI example_env ''http://example.com/down'' ''HEAD'' example_state =
       isAliveURI example_env ''http://example.com/down'' ''GET''
         (example_state\<lparr>world := 1,
            issued := [Fetch ''http://example.com/down'' (manual ''HEAD'')]\<rparr>)
   \<and> isAliveURI example_env ''http://example.com/down'' ''GET'' example_state =
       (Resolved (dead ''connect ECONNREFUSED''),
        example_state\<lparr>world := 1,
          issued := [Fetch ''http://example.com/down'' (manual ''GET'')]\<rparr>)
   \<and> reported (snd (lint example_env DEFAULT_OPTIONS
        \<lparr>node = example_link ''[b](http://example.com/down)'' ''http://example.com/down'',
         uri = ''http://example.com/down'', index = 4\<rparr> example_state)) =
       [\<lparr>rep_node = example_link ''[b](http://example.com/down)'' ''http://example.com/down'',
         rep_message = ''http://example.com/down is dead. (connect ECONNREFUSED)'',
         rep_index = 4, rep_fix = None\<rparr>]
   \<and> fetch example_env ''http://example.com/loop'' (manual ''HEAD'') (world example_state) =
     (Resolved \<lparr>status = 302, statusText = ''Found'', res_url = ''http://example.com/loop''\<rparr>, 1)
   \<and> fetch example_env ''http://example.com/loop'' (follow ''HEAD'') 1 =
     (Rejected ''maximum redirect reached at: http://example.com/loop'', 2)
   \<and> isAliveURI example_env ''http://example.com/loop'' ''HEAD'' example_state =
       isAliveURI example_env ''http://example.com/loop'' ''GET''
         (example_state\<lparr>world := 2,
            issued := [Fetch ''http://example.com/loop'' (manual ''HEAD''),
                       Fetch ''http://example.com/loop'' (follow ''HEAD'')]\<rparr>)
   \<and> isAliveURI example_env ''http://example.com/loop'' ''GET'' example_state =
       (Resolved (dead ''maximum redirect reached at: http://example.com/loop''),
        example_state\<lparr>world := 2,
          issued := [Fetch ''http://example.com/loop'' (manual ''GET''),
                     Fetch ''http://example.com/loop'' (follow ''GET'')]\<rparr>)"
proof -
  let ?nohead = "''http://example.com/nohead''"
  let ?down = "''http://example.com/down''"
  let ?loop = "''http://example.com/loop''"
  let ?r405 = "\<lparr>status = 405, statusText = ''Method Not Allowed'', res_url = ?nohead\<rparr>"
  let ?r200 = "\<lparr>status = 200, statusText = ''OK'', res_url = ?nohead\<rparr>"
  let ?r302 = "\<lparr>status = 302, statusText = ''Found'', res_url = ?loop\<rparr>"
  have nohead:
    "fetch example_env ?nohead (manual ''HEAD'') (world example_state) = (Resolved ?r405, 1)"
    "fetch example_env ?nohead (manual ''GET'') 1 = (Resolved ?r200, 2)"
    by (simp_all add: example_defs)
  have down:
    "fetch example_env ?down (manual ''HEAD'') (world example_state) =
       (Rejected ''socket hang up'', 1)"
    "fetch example_env ?down (manual ''GET'') 1 = (Rejected ''connect ECONNREFUSED'', 2)"
    "fetch example_env ?down (manual ''GET'') (world example_state) =
       (Rejected ''connect ECONNREFUSED'', 1)"
    by (simp_all add: example_defs)
  have loop:
    "fetch example_env ?loop (manual ''HEAD'') (world example_state) = (Resolved ?r302, 1)"
    "fetch example_env ?loop (follow ''HEAD'') 1 =
       (Rejected ''maximum redirect reached at: http://example.com/loop'', 2)"
    "fetch example_env ?loop (manual ''GET'') (world example_state) = (Resolved ?r302, 1)"
    "fetch example_env ?loop (follow ''GET'') 1 =
       (Rejected ''maximum redirect reached at: http://example.com/loop'', 2)"
    by (simp_all add: example_defs)
  have remote:
    "\<not> isIgnored example_env ?nohead (ignore DEFAULT_OPTIONS)"
    "\<not> isLocal example_env ?nohead"
    "choose_method example_env DEFAULT_OPTIONS ?nohead = ''HEAD''"
    "\<not> isIgnored example_env ?down (ignore DEFAULT_OPTIONS)"
    "\<not> isLocal example_env ?down"
    "choose_method example_env DEFAULT_OPTIONS ?down = ''HEAD''"
    by (simp_all add: isIgnored_def isLocal_def isRelative_def choose_method_def
        DEFAULT_OPTIONS_def example_defs)
  have a: "isAliveURI example_env ?nohead ''HEAD'' example_state =
       isAliveURI example_env ?nohead ''GET''
         (example_state\<lparr>world := 1, issued := [Fetch ?nohead (manual ''HEAD'')]\<rparr>)
     \<and> lint example_env DEFAULT_OPTIONS
        \<lparr>node = example_link ''[a](http://example.com/nohead)'' ?nohead,
         uri = ?nohead, index = 4\<rparr> example_state =
       (Resolved (),
        example_state\<lparr>world := 2,
          issued := [Fetch ?nohead (manual ''HEAD''), Fetch ?nohead (manual ''GET'')]\<rparr>)"
    using head_failure_retried_with_get
        [where e = example_env and u = ?nohead
        and st = example_state and opts = DEFAULT_OPTIONS and i = 4 and ?w1.0 = 1 and ?w2.0 = 2
        and a = "Resolved ?r405" and res = ?r405 and ?res2.0 = ?r200
        and n = "example_link ''[a](http://example.com/nohead)'' ?nohead"]
      nohead remote
    by (simp add: example_state_def)
  have b: "isAliveURI example_env ?down ''HEAD'' example_state =
       isAliveURI example_env ?down ''GET''
         (example_state\<lparr>world := 1, issued := [Fetch ?down (manual ''HEAD'')]\<rparr>)
     \<and> lint example_env DEFAULT_OPTIONS
        \<lparr>node = example_link ''[b](http://example.com/down)'' ?down,
         uri = ?down, index = 4\<rparr> example_state =
       (Resolved (),
        example_state\<lparr>world := 2,
          issued := [Fetch ?down (manual ''HEAD''), Fetch ?down (manual ''GET'')],
          reported :=
            [\<lparr>rep_node = example_link ''[b](http://example.com/down)'' ?down,
              rep_message = ''http://example.com/down is dead. (connect ECONNREFUSED)'',
              rep_index = 4, rep_fix = None\<rparr>]\<rparr>)"
    using head_failure_retried_with_get
        [where e = example_env and u = ?down
        and st = example_state and opts = DEFAULT_OPTIONS and i = 4 and ?w1.0 = 1 and ?w2.0 = 2
        and a = "Rejected ''socket hang up''" and ex = "''connect ECONNREFUSED''"
        and n = "example_link ''[b](http://example.com/down)'' ?down"]
      head_failure_retried_with_get
        [where e = example_env and u = ?down
        and st = example_state and ?w1.0 = 1 and ex = "''socket hang up''"]
      down remote
    by (simp add: example_state_def)
  have c: "isAliveURI example_env ?down ''GET'' example_state =
       (Resolved (dead ''connect ECONNREFUSED''),
        example_state\<lparr>world := 1, issued := [Fetch ?down (manual ''GET'')]\<rparr>)"
    using head_failure_retried_with_get
        [where e = example_env and u = ?down
        and st = example_state and ?w1.0 = 1 and ex = "''connect ECONNREFUSED''"]
      down
    by (simp add: example_state_def)
  have d: "isAliveURI example_env ?loop ''HEAD'' example_state =
       isAliveURI example_env ?loop ''GET''
         (example_state\<lparr>world := 2,
            issued := [Fetch ?loop (manual ''HEAD''), Fetch ?loop (follow ''HEAD'')]\<rparr>)
     \<and> isAliveURI example_env ?loop ''GET'' example_state =
       (Resolved (dead ''maximum redirect reached at: http://example.com/loop''),
        example_state\<lparr>world := 2,
          issued := [Fetch ?loop (manual ''GET''), Fetch ?loop (follow ''GET'')]\<rparr>)"
    using head_failure_retried_with_get
        [where e = example_env and u = ?loop
        and st = example_state and ?w1.0 = 1 and ?w2.0 = 2 and res = ?r302
        and ex = "''maximum redirect reached at: http://example.com/loop''"]
      loop
    by (simp add: example_state_def)
  show ?thesis using a b c d nohead down loop by simp
qed


section \<open>Relative URIs\<close>

text \<open>
  Claim C3. Take an occurrence that reaches the resolver (no pattern of the ignore list
  matches it) whose URI is relative, with \<open>checkRelative\<close> enabled. A value counts as
  set when it is a non-empty string, as \<^verbatim>\<open>opts.baseURI || filePath\<close> and \<^verbatim>\<open>!base\<close> test
  it. When \<open>baseURI\<close> is set, the URI is resolved against it; when it is not and the
  file path is set, against the file path; the check then goes on with the resolved
  URI. When neither is set, \<open>lint\<close> reports exactly one diagnostic, with the message
  below and the occurrence's offset, and leaves the world and the list of probes as they
  were: no probe was issued.
\<close>

theorem relative_uri_base:
  assumes "\<not> isIgnored e u (ignore opts)"
    and "isRelative e u" and "checkRelative opts"
  shows "(baseURI opts = Some b \<and> b \<noteq> [] \<longrightarrow>
            lint e opts \<lparr>node = n, uri = u, index = i\<rparr> st =
              lint_resolved e opts n (url_resolve e b u) i st)
     \<and> ((baseURI opts = None \<or> baseURI opts = Some []) \<and> getFilePath e = Some f \<and> f \<noteq> [] \<longrightarrow>
            lint e opts \<lparr>node = n, uri = u, index = i\<rparr> st =
              lint_resolved e opts n (url_resolve e f u) i st)
     \<and> ((baseURI opts = None \<or> baseURI opts = Some [])
          \<and> (getFilePath e = None \<or> getFilePath e = Some []) \<longrightarrow>
            lint e opts \<lparr>node = n, uri = u, index = i\<rparr> st =
              (Resolved (),
               st\<lparr>reported := reported st @
                 [\<lparr>rep_node = n,
                   rep_message = ''Unable to resolve the relative URI. Please check if the base URI is correctly specified.'',
                   rep_index = i, rep_fix = None\<rparr>]\<rparr>))"
  using assms
  by (auto simp: lint_def Let_def or_else_def truthy_def report_def unresolved_message_def)

theorem relative_uri_base_witness:
  "\<not> isIgnored example_env ''guide.html'' (ignore DEFAULT_OPTIONS)
   \<and> isRelative example_env ''guide.html''
   \<and> checkRelative DEFAULT_OPTIONS
   \<and> lint (example_env\<lparr>getFilePath := None\<rparr>) DEFAULT_OPTIONS
        \<lparr>node = example_link ''[a](guide.html)'' ''guide.html'', uri = ''guide.html'',
         index = 4\<rparr> example_state =
       (Resolved (),
        example_state\<lparr>reported :=
          [\<lparr>rep_node = example_link ''[a](guide.html)'' ''guide.html'',
            rep_message = ''Unable to resolve the relative URI. Please check if the base URI is correctly specified.'',
            rep_index = 4, rep_fix = None\<rparr>]\<rparr>)
   \<and> lint example_env (DEFAULT_OPTIONS\<lparr>baseURI := Some ''http://example.com/docs/''\<rparr>)
        \<lparr>node = example_link ''[a](guide.html)'' ''guide.html'', uri = ''guide.html'',
         index = 4\<rparr> example_state =
       lint_resolved example_env (DEFAULT_OPTIONS\<lparr>baseURI := Some ''http://example.com/docs/''\<rparr>)
         (example_link ''[a](guide.html)'' ''guide.html'')
         ''http://example.com/docs/guide.html'' 4 example_state
   \<and> lint example_env DEFAULT_OPTIONS
        \<lparr>node = example_link ''[a](guide.html)'' ''guide.html'', uri = ''guide.html'',
         index = 4\<rparr> example_state =
       lint_resolved example_env DEFAULT_OPTIONS
         (example_link ''[a](guide.html)'' ''guide.html'')
         ''/home/me/doc/guide.html'' 4 example_state"
proof -
  have h: "\<not> isIgnored example_env ''guide.html'' (ignore DEFAULT_OPTIONS)"
    "isRelative example_env ''guide.html''" "checkRelative DEFAULT_OPTIONS"
    by (simp_all add: isIgnored_def isRelative_def DEFAULT_OPTIONS_def example_defs)
  have h': "\<not> isIgnored (example_env\<lparr>getFilePath := None\<rparr>) ''guide.html'' (ignore DEFAULT_OPTIONS)"
    "isRelative (example_env\<lparr>getFilePath := None\<rparr>) ''guide.html''"
    "\<not> isIgnored example_env ''guide.html''
       (ignore (DEFAULT_OPTIONS\<lparr>baseURI := Some ''http://example.com/docs/''\<rparr>))"
    "checkRelative (DEFAULT_OPTIONS\<lparr>baseURI := Some ''http://example.com/docs/''\<rparr>)"
    by (simp_all add: isIgnored_def isRelative_def DEFAULT_OPTIONS_def example_defs)
  have none: "lint (example_env\<lparr>getFilePath := None\<rparr>) DEFAULT_OPTIONS
        \<lparr>node = example_link ''[a](guide.html)'' ''guide.html'', uri = ''guide.html'',
         index = 4\<rparr> example_state =
       (Resolved (),
        example_state\<lparr>reported :=
          [\<lparr>rep_node = example_link ''[a](guide.html)'' ''guide.html'',
            rep_message = ''Unable to resolve the relative URI. Please check if the base URI is correctly specified.'',
            rep_index = 4, rep_fix = None\<rparr>]\<rparr>)"
    using relative_uri_base [OF h'(1) h'(2) h(3),
        of _ "example_link ''[a](guide.html)'' ''guide.html''" 4 example_state]
    by (simp add: DEFAULT_OPTIONS_def example_env_def example_state_def)
  have base: "lint example_env (DEFAULT_OPTIONS\<lparr>baseURI := Some ''http://example.com/docs/''\<rparr>)
        \<lparr>node = example_link ''[a](guide.html)'' ''guide.html'', uri = ''guide.html'',
         index = 4\<rparr> example_state =
       lint_resolved example_env (DEFAULT_OPTIONS\<lparr>baseURI := Some ''http://example.com/docs/''\<rparr>)
         (example_link ''[a](guide.html)'' ''guide.html'')
         ''http://example.com/docs/guide.html'' 4 example_state"
    using relative_uri_base [OF h'(3) h(2) h'(4),
        of "''http://example.com/docs/''" "example_link ''[a](guide.html)'' ''guide.html''"
          4 example_state]
    by (simp add: DEFAULT_OPTIONS_def) (simp add: example_env_def example_resolve_def)
  have path: "lint example_env DEFAULT_OPTIONS
        \<lparr>node = example_link ''[a](guide.html)'' ''guide.html'', uri = ''guide.html'',
         index = 4\<rparr> example_state =
       lint_resolved example_env DEFAULT_OPTIONS
         (example_link ''[a](guide.html)'' ''guide.html'')
         ''/home/me/doc/guide.html'' 4 example_state"
    using relative_uri_base [OF h(1) h(2) h(3),
        of _ "example_link ''[a](guide.html)'' ''guide.html''" 4 example_state
          "''/home/me/doc/README.md''"]
    by (simp add: DEFAULT_OPTIONS_def) (simp add: example_env_def example_resolve_def)
  show ?thesis
    using none base path h by simp
qed


section \<open>Local files\<close>

lemma strip_query_fragment_takeWhile:
  "\<not> list_ex line_terminator p \<Longrightarrow>
   strip_query_fragment p = takeWhile (\<lambda>c. c \<noteq> CHR ''?'' \<and> c \<noteq> CHR ''#'') p"
  by (induction p) auto

lemma strip_query_fragment_prefix: "prefix (strip_query_fragment p) p"
  by (induction p) auto

text \<open>
  Claim C9. The path given to \<^verbatim>\<open>fs.access\<close> is the URI without its query and fragment:
  for a URI without line terminators, everything before the first \<^verbatim>\<open>?\<close> or \<^verbatim>\<open>#\<close>. The
  probe of a local URI is that one call and nothing else. When the call resolves the
  result is ok and \<open>lint\<close> reports nothing; when it rejects, the result is not ok, its
  message is the message of the error, and \<open>lint\<close> reports one dead-link diagnostic
  with that message.
\<close>

theorem local_file_checked_once:
  "(\<not> list_ex line_terminator p \<longrightarrow>
      strip_query_fragment p = takeWhile (\<lambda>c. c \<noteq> CHR ''?'' \<and> c \<noteq> CHR ''#'') p)
   \<and> (fs_access e (strip_query_fragment p) (world st) = (None, w) \<longrightarrow>
        isAliveLocalFile e p st =
          (Resolved \<lparr>ok = True, redirected = False, redirectTo = None, message = None\<rparr>,
           st\<lparr>world := w, issued := issued st @ [Access (strip_query_fragment p)]\<rparr>)
        \<and> (isLocal e p \<longrightarrow>
             lint_resolved e opts n p i st =
               (Resolved (),
                st\<lparr>world := w, issued := issued st @ [Access (strip_query_fragment p)]\<rparr>)))
   \<and> (fs_access e (strip_query_fragment p) (world st) = (Some ex, w) \<longrightarrow>
        isAliveLocalFile e p st =
          (Resolved \<lparr>ok = False, redirected = False, redirectTo = None, message = Some ex\<rparr>,
           st\<lparr>world := w, issued := issued st @ [Access (strip_query_fragment p)]\<rparr>)
        \<and> (isLocal e p \<longrightarrow>
             lint_resolved e opts n p i st =
               (Resolved (),
                st\<lparr>world := w, issued := issued st @ [Access (strip_query_fragment p)],
                   reported := reported st @
                     [\<lparr>rep_node = n, rep_message = p @ '' is dead. ('' @ ex @ '')'',
                       rep_index = i, rep_fix = None\<rparr>]\<rparr>)))"
  by (simp add: strip_query_fragment_takeWhile isAliveLocalFile_def do_access_def
      lint_resolved_def report_def template_def)

theorem local_file_checked_once_witness:
  "\<not> list_ex line_terminator ''/home/me/doc/README.md?plain=1#top''
   \<and> strip_query_fragment ''/home/me/doc/README.md?plain=1#top'' = ''/home/me/doc/README.md''
   \<and> isLocal example_env ''/home/me/doc/README.md?plain=1#top''
   \<and> lint example_env DEFAULT_OPTIONS
        \<lparr>node = example_link ''[a](README.md?plain=1#top)'' ''README.md?plain=1#top'',
         uri = ''README.md?plain=1#top'', index = 4\<rparr> example_state =
       (Resolved (),
        example_state\<lparr>world := 1, issued := [Access ''/home/me/doc/README.md'']\<rparr>)
   \<and> isLocal example_env ''/home/me/doc/missing.md''
   \<and> lint example_env DEFAULT_OPTIONS
        \<lparr>node = example_link ''[b](missing.md)'' ''missing.md'',
         uri = ''missing.md'', index = 4\<rparr> example_state =
       (Resolved (),
        example_state\<lparr>world := 1, issued := [Access ''/home/me/doc/missing.md''],
          reported :=
            [\<lparr>rep_node = example_link ''[b](missing.md)'' ''missing.md'',
              rep_message = ''/home/me/doc/missing.md is dead. (ENOENT: no such file or directory, access /home/me/doc/missing.md)'',
              rep_index = 4, rep_fix = None\<rparr>]\<rparr>)"
proof -
  have plain: "\<not> list_ex line_terminator ''/home/me/doc/README.md?plain=1#top''"
    by (simp add: line_terminator_def)
  have local: "isLocal example_env ''/home/me/doc/README.md?plain=1#top''"
    "isLocal example_env ''/home/me/doc/missing.md''"
    by (simp_all add: isLocal_def example_defs)
  have found: "lint_resolved example_env DEFAULT_OPTIONS
         (example_link ''[a](README.md?plain=1#top)'' ''README.md?plain=1#top'')
         ''/home/me/doc/README.md?plain=1#top'' 4 example_state =
       (Resolved (),
        example_state\<lparr>world := 1, issued := [Access ''/home/me/doc/README.md'']\<rparr>)"
    using local_file_checked_once [of "''/home/me/doc/README.md?plain=1#top''" example_env
        example_state 1 DEFAULT_OPTIONS
        "example_link ''[a](README.md?plain=1#top)'' ''README.md?plain=1#top''" 4] local
    by (simp add: example_env_def example_access_def example_state_def line_terminator_def)
  have missing: "lint_resolved example_env DEFAULT_OPTIONS
         (example_link ''[b](missing.md)'' ''missing.md'')
         ''/home/me/doc/missing.md'' 4 example_state =
       (Resolved (),
        example_state\<lparr>world := 1, issued := [Access ''/home/me/doc/missing.md''],
          reported :=
            [\<lparr>rep_node = example_link ''[b](missing.md)'' ''missing.md'',
              rep_message = ''/home/me/doc/missing.md is dead. (ENOENT: no such file or directory, access /home/me/doc/missing.md)'',
              rep_index = 4, rep_fix = None\<rparr>]\<rparr>)"
    using local_file_checked_once [of "''/home/me/doc/missing.md''" example_env
        example_state 1 DEFAULT_OPTIONS "example_link ''[b](missing.md)'' ''missing.md''" 4
        "''ENOENT: no such file or directory, access /home/me/doc/missing.md''"] local
    by (simp add: example_env_def example_access_def example_state_def line_terminator_def)
  have relative: "lint example_env DEFAULT_OPTIONS \<lparr>node = n, uri = ''README.md?plain=1#top'',
         index = 4\<rparr> example_state =
       lint_resolved example_env DEFAULT_OPTIONS n ''/home/me/doc/README.md?plain=1#top'' 4
         example_state"
    "lint example_env DEFAULT_OPTIONS \<lparr>node = n, uri = ''missing.md'', index = 4\<rparr>
         example_state =
       lint_resolved example_env DEFAULT_OPTIONS n ''/home/me/doc/missing.md'' 4 example_state"
    for n
    by (simp_all add: lint_def isIgnored_def isRelative_def or_else_def truthy_def
        DEFAULT_OPTIONS_def example_env_def example_host_def example_resolve_def)
  show ?thesis
    using plain local found missing by (simp add: relative line_terminator_def)
qed

section \<open>Reports after resolution\<close>

lemma lint_resolved_result:
  assumes "(if isLocal e r then isAliveLocalFile e r st
            else isAliveURI e r (choose_method e opts r) st) = (Resolved result, st1)"
  shows "lint_resolved e opts n r i st =
     (Resolved (),
      if \<not> ok result then
        report \<lparr>rep_node = n,
                rep_message = r @ '' is dead. ('' @ template (message result) @ '')'',
                rep_index = i, rep_fix = None\<rparr> st1
      else if redirected result then
        report \<lparr>rep_node = n,
                rep_message = r @ '' is redirected to '' @ template (redirectTo result)
                  @ ''. ('' @ template (message result) @ '')'',
                rep_index = i,
                rep_fix = Some \<lparr>fix_range = (i, i + int (length r)),
                                 fix_text = redirectTo result\<rparr>\<rparr> st1
      else st1)"
  unfolding lint_resolved_def Let_def assms by simp

text \<open>
  Claim C10. Take an occurrence whose relative URI \<open>u\<close> is resolved against a base,
  giving \<open>r\<close>, and let the probe of \<open>r\<close> resolve with some result. Then what \<open>lint\<close>
  reports is written with \<open>r\<close>, not with \<open>u\<close>: the dead-link message and the redirect
  message start with \<open>r\<close>, and the fix of a redirect replaces the range from the offset
  to the offset plus the length of \<open>r\<close>. The length of \<open>r\<close> can differ from the length
  of \<open>u\<close>, the text that stands at the offset: resolving \<^verbatim>\<open>guide.html\<close> (10 characters)
  against \<^verbatim>\<open>http://example.com/docs/\<close> gives 34 characters.
\<close>

theorem resolved_uri_in_reports:
  "(\<not> isIgnored e u (ignore opts) \<and> isRelative e u \<and> checkRelative opts
      \<and> or_else (baseURI opts) (getFilePath e) = Some base \<and> base \<noteq> []
      \<and> r = url_resolve e base u
      \<and> (if isLocal e r then isAliveLocalFile e r st
          else isAliveURI e r (choose_method e opts r) st) = (Resolved result, st1)
    \<longrightarrow>
      (\<not> ok result \<longrightarrow>
         lint e opts \<lparr>node = n, uri = u, index = i\<rparr> st =
           (Resolved (),
            st1\<lparr>reported := reported st1 @
              [\<lparr>rep_node = n,
                rep_message = r @ '' is dead. ('' @ template (message result) @ '')'',
                rep_index = i, rep_fix = None\<rparr>]\<rparr>))
      \<and> (ok result \<and> redirected result \<longrightarrow>
         lint e opts \<lparr>node = n, uri = u, index = i\<rparr> st =
           (Resolved (),
            st1\<lparr>reported := reported st1 @
              [\<lparr>rep_node = n,
                rep_message = r @ '' is redirected to '' @ template (redirectTo result)
                  @ ''. ('' @ template (message result) @ '')'',
                rep_index = i,
                rep_fix = Some \<lparr>fix_range = (i, i + int (length r)),
                                 fix_text = redirectTo result\<rparr>\<rparr>]\<rparr>))
      \<and> (ok result \<and> \<not> redirected result \<longrightarrow>
         lint e opts \<lparr>node = n, uri = u, index = i\<rparr> st = (Resolved (), st1)))
   \<and> isRelative example_env ''guide.html''
   \<and> length (url_resolve example_env ''http://example.com/docs/'' ''guide.html'') = 34
   \<and> length ''guide.html'' = 10"
proof (intro conjI impI)
  assume h: "\<not> isIgnored e u (ignore opts) \<and> isRelative e u \<and> checkRelative opts
      \<and> or_else (baseURI opts) (getFilePath e) = Some base \<and> base \<noteq> []
      \<and> r = url_resolve e base u
      \<and> (if isLocal e r then isAliveLocalFile e r st
          else isAliveURI e r (choose_method e opts r) st) = (Resolved result, st1)"
  then have probe: "(if isLocal e r then isAliveLocalFile e r st
          else isAliveURI e r (choose_method e opts r) st) = (Resolved result, st1)"
    by blast
  from h have "lint e opts \<lparr>node = n, uri = u, index = i\<rparr> st =
      lint_resolved e opts n r i st"
    by (simp add: lint_def truthy_def)
  then have resolved: "lint e opts \<lparr>node = n, uri = u, index = i\<rparr> st =
     (Resolved (),
      if \<not> ok result then
        report \<lparr>rep_node = n,
                rep_message = r @ '' is dead. ('' @ template (message result) @ '')'',
                rep_index = i, rep_fix = None\<rparr> st1
      else if redirected result then
        report \<lparr>rep_node = n,
                rep_message = r @ '' is redirected to '' @ template (redirectTo result)
                  @ ''. ('' @ template (message result) @ '')'',
                rep_index = i,
                rep_fix = Some \<lparr>fix_range = (i, i + int (length r)),
                                 fix_text = redirectTo result\<rparr>\<rparr> st1
      else st1)"
    by (simp only: lint_resolved_result [OF probe])
  {
    assume "\<not> ok result"
    then show "lint e opts \<lparr>node = n, uri = u, index = i\<rparr> st =
           (Resolved (),
            st1\<lparr>reported := reported st1 @
              [\<lparr>rep_node = n,
                rep_message = r @ '' is dead. ('' @ template (message result) @ '')'',
                rep_index = i, rep_fix = None\<rparr>]\<rparr>)"
      unfolding resolved by (simp add: report_def)
  next
    assume "ok result \<and> redirected result"
    then show "lint e opts \<lparr>node = n, uri = u, index = i\<rparr> st =
           (Resolved (),
            st1\<lparr>reported := reported st1 @
              [\<lparr>rep_node = n,
                rep_message = r @ '' is redirected to '' @ template (redirectTo result)
                  @ ''. ('' @ template (message result) @ '')'',
                rep_index = i,
                rep_fix = Some \<lparr>fix_range = (i, i + int (length r)),
                                 fix_text = redirectTo result\<rparr>\<rparr>]\<rparr>)"
      unfolding resolved by (simp add: report_def)
  next
    assume "ok result \<and> \<not> redirected result"
    then show "lint e opts \<lparr>node = n, uri = u, index = i\<rparr> st = (Resolved (), st1)"
      unfolding resolved by simp
  }
next
  show "isRelative example_env ''guide.html''"
    by (simp add: isRelative_def example_defs)
next
  show "length (url_resolve example_env ''http://example.com/docs/'' ''guide.html'') = 34"
    by (simp add: example_env_def example_resolve_def)
next
  show "length ''guide.html'' = 10" by simp
qed


theorem resolved_uri_in_reports_witness:
  "\<not> isIgnored example_env ''guide.html'' (ignore DEFAULT_OPTIONS)
   \<and> isRelative example_env ''guide.html''
   \<and> url_resolve example_env ''http://example.com/docs/'' ''guide.html'' =
       ''http://example.com/docs/guide.html''
   \<and> isAliveURI example_env ''http://example.com/docs/guide.html'' ''HEAD'' example_state =
       (Resolved \<lparr>ok = True, redirected = True,
                  redirectTo = Some ''http://example.com/manual/guide.html'',
                  message = Some ''302 Found''\<rparr>,
        example_state\<lparr>world := 2,
          issued := [Fetch ''http://example.com/docs/guide.html'' (manual ''HEAD''),
                     Fetch ''http://example.com/docs/guide.html'' (follow ''HEAD'')]\<rparr>)
   \<and> lint example_env (DEFAULT_OPTIONS\<lparr>baseURI := Some ''http://example.com/docs/''\<rparr>)
        \<lparr>node = example_link ''[a](guide.html)'' ''guide.html'', uri = ''guide.html'',
         index = 4\<rparr> example_state =
       (Resolved (),
        example_state\<lparr>world := 2,
          issued := [Fetch ''http://example.com/docs/guide.html'' (manual ''HEAD''),
                     Fetch ''http://example.com/docs/guide.html'' (follow ''HEAD'')],
          reported :=
            [\<lparr>rep_node = example_link ''[a](guide.html)'' ''guide.html'',
              rep_message = ''http://example.com/docs/guide.html is redirected to http://example.com/manual/guide.html. (302 Found)'',
              rep_index = 4,
              rep_fix = Some \<lparr>fix_range = (4, 38),
                               fix_text = Some ''http://example.com/manual/guide.html''\<rparr>\<rparr>]\<rparr>)
   \<and> url_resolve example_env ''/home/me/doc/README.md'' ''missing.md'' =
       ''/home/me/doc/missing.md''
   \<and> lint example_env DEFAULT_OPTIONS
        \<lparr>node = example_link ''[b](missing.md)'' ''missing.md'', uri = ''missing.md'',
         index = 4\<rparr> example_state =
       (Resolved (),
        example_state\<lparr>world := 1, issued := [Access ''/home/me/doc/missing.md''],
          reported :=
            [\<lparr>rep_node = example_link ''[b](missing.md)'' ''missing.md'',
              rep_message = ''/home/me/doc/missing.md is dead. (ENOENT: no such file or directory, access /home/me/doc/missing.md)'',
              rep_index = 4, rep_fix = None\<rparr>]\<rparr>)
   \<and> lint example_env DEFAULT_OPTIONS
        \<lparr>node = example_link ''[c](README.md)'' ''README.md'', uri = ''README.md'',
         index = 4\<rparr> example_state =
       (Resolved (),
        example_state\<lparr>world := 1, issued := [Access ''/home/me/doc/README.md'']\<rparr>)"
proof -
  let ?opts = "DEFAULT_OPTIONS\<lparr>baseURI := Some ''http://example.com/docs/''\<rparr>"
  let ?r = "''http://example.com/docs/guide.html''"
  let ?st1 = "example_state\<lparr>world := 2,
          issued := [Fetch ?r (manual ''HEAD''), Fetch ?r (follow ''HEAD'')]\<rparr>"
  let ?result = "\<lparr>ok = True, redirected = True,
                  redirectTo = Some ''http://example.com/manual/guide.html'',
                  message = Some ''302 Found''\<rparr>"
  have relative: "\<not> isIgnored example_env ''guide.html'' (ignore DEFAULT_OPTIONS)"
    "\<not> isIgnored example_env ''guide.html'' (ignore ?opts)"
    "isRelative example_env ''guide.html''" "checkRelative ?opts"
    by (simp_all add: isIgnored_def isRelative_def DEFAULT_OPTIONS_def example_defs)
  have base: "or_else (baseURI ?opts) (getFilePath example_env) = Some ''http://example.com/docs/''"
    by (simp add: or_else_def truthy_def)
  have resolve: "url_resolve example_env ''http://example.com/docs/'' ''guide.html'' = ?r"
    by (simp add: example_env_def example_resolve_def)
  have remote: "\<not> isLocal example_env ?r" "choose_method example_env ?opts ?r = ''HEAD''"
    by (simp_all add: isLocal_def isRelative_def choose_method_def DEFAULT_OPTIONS_def
        example_defs)
  have alive: "isAliveURI example_env ?r ''HEAD'' example_state = (Resolved ?result, ?st1)"
    by (simp add: isAliveURI_HEAD do_fetch_def isRedirect_def response_ok_def status_line_def
        show_nat.simps example_env_def example_fetch_def example_state_def)
  from remote alive
  have probe: "(if isLocal example_env ?r then isAliveLocalFile example_env ?r example_state
      else isAliveURI example_env ?r (choose_method example_env ?opts ?r) example_state) =
      (Resolved ?result, ?st1)"
    by simp
  from resolved_uri_in_reports [of example_env "''guide.html''" ?opts
      "''http://example.com/docs/''" ?r example_state ?result ?st1
      "example_link ''[a](guide.html)'' ''guide.html''" 4]
    relative base resolve [symmetric] probe
  have "lint example_env ?opts
        \<lparr>node = example_link ''[a](guide.html)'' ''guide.html'', uri = ''guide.html'',
         index = 4\<rparr> example_state =
       (Resolved (),
        ?st1\<lparr>reported := reported ?st1 @
            [\<lparr>rep_node = example_link ''[a](guide.html)'' ''guide.html'',
              rep_message = ?r @ '' is redirected to '' @ template (redirectTo ?result)
                  @ ''. ('' @ template (message ?result) @ '')'',
              rep_index = 4,
              rep_fix = Some \<lparr>fix_range = (4, 4 + int (length ?r)),
                               fix_text = redirectTo ?result\<rparr>\<rparr>]\<rparr>)"
    by simp
  then have redirect: "lint example_env ?opts
        \<lparr>node = example_link ''[a](guide.html)'' ''guide.html'', uri = ''guide.html'',
         index = 4\<rparr> example_state =
       (Resolved (),
        example_state\<lparr>world := 2,
          issued := [Fetch ?r (manual ''HEAD''), Fetch ?r (follow ''HEAD'')],
          reported :=
            [\<lparr>rep_node = example_link ''[a](guide.html)'' ''guide.html'',
              rep_message = ''http://example.com/docs/guide.html is redirected to http://example.com/manual/guide.html. (302 Found)'',
              rep_index = 4,
              rep_fix = Some \<lparr>fix_range = (4, 38),
                               fix_text = Some ''http://example.com/manual/guide.html''\<rparr>\<rparr>]\<rparr>)"
    by (simp add: template_def example_state_def)
  let ?enoent = "''ENOENT: no such file or directory, access /home/me/doc/missing.md''"
  let ?st2 = "example_state\<lparr>world := 1, issued := [Access ''/home/me/doc/missing.md'']\<rparr>"
  let ?st3 = "example_state\<lparr>world := 1, issued := [Access ''/home/me/doc/README.md'']\<rparr>"
  have files: "\<not> isIgnored example_env ''missing.md'' (ignore DEFAULT_OPTIONS)"
    "isRelative example_env ''missing.md''"
    "\<not> isIgnored example_env ''README.md'' (ignore DEFAULT_OPTIONS)"
    "isRelative example_env ''README.md''" "checkRelative DEFAULT_OPTIONS"
    "or_else (baseURI DEFAULT_OPTIONS) (getFilePath example_env) = Some ''/home/me/doc/README.md''"
    "url_resolve example_env ''/home/me/doc/README.md'' ''missing.md'' = ''/home/me/doc/missing.md''"
    "url_resolve example_env ''/home/me/doc/README.md'' ''README.md'' = ''/home/me/doc/README.md''"
    by (simp_all add: isIgnored_def isRelative_def or_else_def truthy_def DEFAULT_OPTIONS_def
        example_defs)
  have probes:
    "(if isLocal example_env ''/home/me/doc/missing.md''
      then isAliveLocalFile example_env ''/home/me/doc/missing.md'' example_state
      else isAliveURI example_env ''/home/me/doc/missing.md''
        (choose_method example_env DEFAULT_OPTIONS ''/home/me/doc/missing.md'') example_state) =
      (Resolved (dead ?enoent), ?st2)"
    "(if isLocal example_env ''/home/me/doc/README.md''
      then isAliveLocalFile example_env ''/home/me/doc/README.md'' example_state
      else isAliveURI example_env ''/home/me/doc/README.md''
        (choose_method example_env DEFAULT_OPTIONS ''/home/me/doc/README.md'') example_state) =
      (Resolved \<lparr>ok = True, redirected = False, redirectTo = None, message = None\<rparr>, ?st3)"
    by (simp_all add: isLocal_def isAliveLocalFile_def do_access_def line_terminator_def
        example_defs)
  from resolved_uri_in_reports [of example_env "''missing.md''" DEFAULT_OPTIONS
      "''/home/me/doc/README.md''" "''/home/me/doc/missing.md''" example_state "dead ?enoent" ?st2
      "example_link ''[b](missing.md)'' ''missing.md''" 4]
    files probes
  have missing: "lint example_env DEFAULT_OPTIONS
        \<lparr>node = example_link ''[b](missing.md)'' ''missing.md'', uri = ''missing.md'',
         index = 4\<rparr> example_state =
       (Resolved (),
        example_state\<lparr>world := 1, issued := [Access ''/home/me/doc/missing.md''],
          reported :=
            [\<lparr>rep_node = example_link ''[b](missing.md)'' ''missing.md'',
              rep_message = ''/home/me/doc/missing.md is dead. (ENOENT: no such file or directory, access /home/me/doc/missing.md)'',
              rep_index = 4, rep_fix = None\<rparr>]\<rparr>)"
    by (simp add: template_def example_state_def)
  from resolved_uri_in_reports [of example_env "''README.md''" DEFAULT_OPTIONS
      "''/home/me/doc/README.md''" "''/home/me/doc/README.md''" example_state
      "\<lparr>ok = True, redirected = False, redirectTo = None, message = None\<rparr>" ?st3
      "example_link ''[c](README.md)'' ''README.md''" 4]
    files probes
  have readme: "lint example_env DEFAULT_OPTIONS
        \<lparr>node = example_link ''[c](README.md)'' ''README.md'', uri = ''README.md'',
         index = 4\<rparr> example_state = (Resolved (), ?st3)"
    by simp
  show ?thesis
    using relative resolve alive redirect missing readme files by simp
qed

section \<open>The method of the first request\<close>

text \<open>
  Claim C6. \<open>lint\<close> chooses \<^verbatim>\<open>GET\<close> exactly when \<^verbatim>\<open>getURLOrigin\<close> gives the URI the
  origin it gives some entry of \<open>preferGET\<close>, and \<^verbatim>\<open>HEAD\<close> otherwise, so \<^verbatim>\<open>HEAD\<close> with
  the default, empty list. Two URIs with the same origin get the same method, whatever
  their paths and queries. For a remote URI (the occurrence's own when it is not
  ignored, or the one a relative URI was resolved to), the first probe \<open>lint\<close> issues
  is a request with the chosen method, and when that is \<^verbatim>\<open>GET\<close> the only other probe
  there can be is the request with \<^verbatim>\<open>GET\<close> that follows a redirect: no request with
  \<^verbatim>\<open>HEAD\<close> is issued.
\<close>

theorem get_when_origin_preferred:
  "(choose_method e opts u = ''GET'' \<longleftrightarrow>
      (\<exists>origin \<in> set (preferGET opts). getURLOrigin e u = getURLOrigin e origin))
   \<and> (choose_method e opts u = ''HEAD'' \<longleftrightarrow>
      \<not> (\<exists>origin \<in> set (preferGET opts). getURLOrigin e u = getURLOrigin e origin))
   \<and> choose_method e DEFAULT_OPTIONS u = ''HEAD''
   \<and> (getURLOrigin e u = getURLOrigin e u' \<longrightarrow> choose_method e opts u = choose_method e opts u')
   \<and> (\<not> isLocal e u \<longrightarrow>
        (\<exists>ps. issued (snd (lint_resolved e opts n u i st)) =
                issued st @ Fetch u (manual (choose_method e opts u)) # ps
           \<and> (choose_method e opts u = ''GET'' \<longrightarrow> ps = [] \<or> ps = [Fetch u (follow ''GET'')])))
   \<and> (\<not> isIgnored e u (ignore opts) \<and> \<not> isLocal e u \<longrightarrow>
        (\<exists>ps. issued (snd (lint e opts \<lparr>node = n, uri = u, index = i\<rparr> st)) =
                issued st @ Fetch u (manual (choose_method e opts u)) # ps
           \<and> (choose_method e opts u = ''GET'' \<longrightarrow> ps = [] \<or> ps = [Fetch u (follow ''GET'')])))"
proof (intro conjI impI)
  have length_filter: "0 < length (filter P xs) \<longleftrightarrow> (\<exists>x \<in> set xs. P x)" for P and xs :: "string list"
    by (simp add: filter_empty_conv)
  show "choose_method e opts u = ''GET'' \<longleftrightarrow>
      (\<exists>origin \<in> set (preferGET opts). getURLOrigin e u = getURLOrigin e origin)"
    unfolding choose_method_def length_filter by simp
  show "choose_method e opts u = ''HEAD'' \<longleftrightarrow>
      \<not> (\<exists>origin \<in> set (preferGET opts). getURLOrigin e u = getURLOrigin e origin)"
    unfolding choose_method_def length_filter by simp
  show "choose_method e DEFAULT_OPTIONS u = ''HEAD''"
    by (simp add: choose_method_def DEFAULT_OPTIONS_def)
  show "choose_method e opts u = choose_method e opts u'"
    if "getURLOrigin e u = getURLOrigin e u'"
    using that by (simp add: choose_method_def)
next
  let ?m = "choose_method e opts u"
  have probes: "\<exists>ps. issued (snd (lint_resolved e opts n u i st)) =
                issued st @ Fetch u (manual ?m) # ps
           \<and> (?m = ''GET'' \<longrightarrow> ps = [] \<or> ps = [Fetch u (follow ''GET'')])"
    if remote: "\<not> isLocal e u"
  proof -
    have same: "issued (snd (lint_resolved e opts n u i st)) =
        issued (snd (isAliveURI e u ?m st))"
      using remote
      by (simp add: lint_resolved_def report_def split: prod.splits settled.splits)
    show ?thesis
    proof (cases "?m = ''GET''")
      case True
      with last_attempt_probes [of "''GET''" e u st] same show ?thesis by auto
    next
      case False
      then have "?m = ''HEAD''" by (simp add: choose_method_def split: if_splits)
      with head_attempt_probes [of e u st] same False show ?thesis by auto
    qed
  qed
  {
    assume "\<not> isLocal e u"
    then show "\<exists>ps. issued (snd (lint_resolved e opts n u i st)) =
                issued st @ Fetch u (manual ?m) # ps
           \<and> (?m = ''GET'' \<longrightarrow> ps = [] \<or> ps = [Fetch u (follow ''GET'')])"
      by (rule probes)
  next
    assume h: "\<not> isIgnored e u (ignore opts) \<and> \<not> isLocal e u"
    then have "lint e opts \<lparr>node = n, uri = u, index = i\<rparr> st =
        lint_resolved e opts n u i st"
      by (simp add: lint_def remote_not_relative)
    with h probes show "\<exists>ps. issued (snd (lint e opts \<lparr>node = n, uri = u, index = i\<rparr> st)) =
                issued st @ Fetch u (manual ?m) # ps
           \<and> (?m = ''GET'' \<longrightarrow> ps = [] \<or> ps = [Fetch u (follow ''GET'')])"
      by simp
  }
qed

theorem get_when_origin_preferred_witness:
  "getURLOrigin example_env ''http://example.com/nohead'' =
     getURLOrigin example_env ''http://example.com''
   \<and> \<not> isIgnored example_env ''http://example.com/nohead'' (ignore DEFAULT_OPTIONS)
   \<and> \<not> isLocal example_env ''http://example.com/nohead''
   \<and> choose_method example_env (DEFAULT_OPTIONS\<lparr>preferGET := [''http://example.com'']\<rparr>)
        ''http://example.com/nohead'' = ''GET''
   \<and> choose_method example_env (DEFAULT_OPTIONS\<lparr>preferGET := [''http://example.com'']\<rparr>)
        ''http://example.com/old?x=1'' = ''GET''
   \<and> issued (snd (lint example_env (DEFAULT_OPTIONS\<lparr>preferGET := [''http://example.com'']\<rparr>)
        \<lparr>node = example_link ''[a](http://example.com/nohead)'' ''http://example.com/nohead'',
         uri = ''http://example.com/nohead'', index = 4\<rparr> example_state)) =
       [Fetch ''http://example.com/nohead'' (manual ''GET'')]
   \<and> issued (snd (lint example_env DEFAULT_OPTIONS
        \<lparr>node = example_link ''[a](http://example.com/nohead)'' ''http://example.com/nohead'',
         uri = ''http://example.com/nohead'', index = 4\<rparr> example_state)) =
       [Fetch ''http://example.com/nohead'' (manual ''HEAD''),
        Fetch ''http://example.com/nohead'' (manual ''GET'')]
   \<and> issued (snd (lint_resolved example_env
        (DEFAULT_OPTIONS\<lparr>preferGET := [''http://example.com'']\<rparr>)
        (example_link ''[b](old)'' ''old'') ''http://example.com/old'' 4 example_state)) =
       [Fetch ''http://example.com/old'' (manual ''GET''),
        Fetch ''http://example.com/old'' (follow ''GET'')]"
proof -
  let ?opts = "DEFAULT_OPTIONS\<lparr>preferGET := [''http://example.com'']\<rparr>"
  let ?u = "''http://example.com/nohead''"
  have origin: "getURLOrigin example_env ?u = getURLOrigin example_env ''http://example.com''"
    "getURLOrigin example_env ?u = getURLOrigin example_env ''http://example.com/old?x=1''"
    by (simp_all add: example_env_def example_origin_def)
  have remote: "\<not> isIgnored example_env ?u (ignore DEFAULT_OPTIONS)"
    "\<not> isIgnored example_env ?u (ignore ?opts)" "\<not> isLocal example_env ?u"
    by (simp_all add: isIgnored_def isLocal_def isRelative_def DEFAULT_OPTIONS_def example_defs)
  have get: "choose_method example_env ?opts ?u = ''GET''"
    using get_when_origin_preferred [of example_env ?opts ?u] origin by simp
  have same: "choose_method example_env ?opts ''http://example.com/old?x=1'' = ''GET''"
    using get_when_origin_preferred [of example_env ?opts ?u "''http://example.com/old?x=1''"]
      origin get
    by auto
  have run: "issued (snd (lint example_env ?opts
        \<lparr>node = example_link ''[a](http://example.com/nohead)'' ''http://example.com/nohead'',
         uri = ?u, index = 4\<rparr> example_state)) = [Fetch ?u (manual ''GET'')]"
    using remote get
    by (simp add: lint_remote isAliveURI_GET do_fetch_def isRedirect_def response_ok_def
        report_def example_env_def example_fetch_def example_state_def)
  have default: "issued (snd (lint example_env DEFAULT_OPTIONS
        \<lparr>node = example_link ''[a](http://example.com/nohead)'' ''http://example.com/nohead'',
         uri = ?u, index = 4\<rparr> example_state)) =
       [Fetch ?u (manual ''HEAD''), Fetch ?u (manual ''GET'')]"
    using remote get_when_origin_preferred [of example_env DEFAULT_OPTIONS ?u]
    by (simp add: lint_remote isAliveURI_HEAD isAliveURI_GET do_fetch_def isRedirect_def
        response_ok_def report_def example_env_def example_fetch_def example_state_def)
  have resolved: "issued (snd (lint_resolved example_env ?opts
        (example_link ''[b](old)'' ''old'') ''http://example.com/old'' 4 example_state)) =
       [Fetch ''http://example.com/old'' (manual ''GET''),
        Fetch ''http://example.com/old'' (follow ''GET'')]"
    using get_when_origin_preferred [of example_env ?opts "''http://example.com/old''"]
    by (simp add: lint_resolved_def isLocal_def isRelative_def isAliveURI_GET do_fetch_def
        isRedirect_def response_ok_def report_def example_defs)
  show ?thesis
    using origin remote get same run default resolved by simp
qed


section \<open>Starting the checks\<close>

text \<open>Every entry of \<open>URIs\<close> gets its check started, whatever the others do.\<close>

lemma lint_started_each_Cons:
  "lint_started_each e t opts (item # items) st =
     (fst (lint_started e t opts item st)
        # fst (lint_started_each e t opts items (snd (lint_started e t opts item st))),
      snd (lint_started_each e t opts items (snd (lint_started e t opts item st))))"
  by (simp split: prod.splits)

lemma lint_started_each_length:
  "length (fst (lint_started_each e t opts items st)) = length items"
proof (induction items arbitrary: st)
  case Nil
  show ?case by simp
next
  case (Cons item items)
  from Cons [of "snd (lint_started e t opts item st)"]
  show ?case by (simp only: lint_started_each_Cons fst_conv list.size length_Cons)
qed

text \<open>A check is rejected at its start only when a library call throws.\<close>

lemma isIgnored_throws_None:
  "(\<And>u pattern. minimatch_throws t u pattern = None) \<Longrightarrow> isIgnored_throws e t u patterns = None"
  by (induction patterns) simp_all

lemma choose_method_throws_None:
  "(\<And>u. getURLOrigin_throws t u = None) \<Longrightarrow> choose_method_throws t u origins = None"
  by (induction origins) simp_all

lemma lint_started_not_rejected:
  assumes "\<And>u pattern. minimatch_throws t u pattern = None"
    and "\<And>u. URL_parse_throws t u = None"
    and "\<And>base u. URL_resolve_throws t base u = None"
    and "\<And>u. getURLOrigin_throws t u = None"
  shows "fst (lint_started e t opts item st) \<noteq> Some (Rejected ex)"
  using assms
  by (simp add: lint_started_def lint_resolved_started_def isLocal_throws_def Let_def
      isIgnored_throws_None choose_method_throws_None)

text \<open>
  Where the check is resolved at its start, it is what \<open>lint\<close> gives; where it is
  pending, the call it has issued is the first probe of \<open>lint\<close>.
\<close>

lemma lint_started_resolved:
  assumes "lint_started e t opts item st = (Some (Resolved v), st1)"
  shows "lint e opts item st = (Resolved (), st1)"
  using assms
  by (auto simp: lint_started_def lint_resolved_started_def lint_def Let_def
      split: option.splits if_splits)

lemma lint_resolved_first_probe:
  "\<exists>ps. issued (snd (lint_resolved e opts n u i st)) =
     issued st @ (if isLocal e u then Access (strip_query_fragment u)
                  else Fetch u (manual (choose_method e opts u))) # ps"
proof (cases "isLocal e u")
  case True
  then show ?thesis
    by (simp add: lint_resolved_def isAliveLocalFile_def do_access_def report_def
        split: prod.splits option.splits)
next
  case False
  let ?m = "choose_method e opts u"
  have same: "issued (snd (lint_resolved e opts n u i st)) = issued (snd (isAliveURI e u ?m st))"
    using False
    by (simp add: lint_resolved_def report_def split: prod.splits settled.splits)
  have "\<exists>ps. issued (snd (isAliveURI e u ?m st)) = issued st @ Fetch u (manual ?m) # ps"
  proof (cases "?m = ''HEAD''")
    case True
    with head_attempt_probes [of e u st] show ?thesis by simp
  next
    case False
    with last_attempt_probes [of ?m e u st] show ?thesis by auto
  qed
  with same False show ?thesis by simp
qed

lemma lint_started_pending:
  assumes "lint_started e t opts item st = (None, st1)"
  shows "\<exists>p ps. st1 = st\<lparr>issued := issued st @ [p]\<rparr>
     \<and> issued (snd (lint e opts item st)) = issued st @ p # ps"
proof -
  from assms have "\<exists>u. lint_resolved_started e t opts u st = (None, st1)
     \<and> lint e opts item st = lint_resolved e opts (node item) u (index item) st"
    by (auto simp: lint_started_def lint_def Let_def split: option.splits if_splits)
  then obtain u where started: "lint_resolved_started e t opts u st = (None, st1)"
    and run: "lint e opts item st = lint_resolved e opts (node item) u (index item) st"
    by blast
  let ?p = "if isLocal e u then Access (strip_query_fragment u)
            else Fetch u (manual (choose_method e opts u))"
  from started have "st1 = st\<lparr>issued := issued st @ [?p]\<rparr>"
    by (auto simp: lint_resolved_started_def split: option.splits)
  moreover from lint_resolved_first_probe [of e opts "node item" u "index item" st] run
  have "\<exists>ps. issued (snd (lint e opts item st)) = issued st @ ?p # ps"
    by simp
  ultimately show ?thesis by blast
qed

text \<open>
  Claim C5. A document with two links, the first to \<^verbatim>\<open>http://%E0%A4%A@example.com/\<close>,
  the second to \<^verbatim>\<open>http://example.com/gone\<close>. Both checks are started. The first is
  rejected, since \<^verbatim>\<open>URL.parse\<close> throws in \<^verbatim>\<open>isRelative\<close>; the second has issued its
  request and waits for the answer. The promise of \<^verbatim>\<open>Promise.all\<close> is rejected at this
  point: the handler of the end of the document has completed with an error while a
  check has not settled, and no diagnostic is reported yet.
\<close>

theorem malformed_uri_rejects_the_join:
  "Document_exit example_env example_throws DEFAULT_OPTIONS
     (Link_handler (example_link ''[b](http://example.com/gone)'' ''http://example.com/gone'')
       (Link_handler
         (example_link ''[a](http://%E0%A4%A@example.com/)'' ''http://%E0%A4%A@example.com/'')
         example_state)) =
   (Some (Rejected ''URI malformed''),
    [Some (Rejected ''URI malformed''), None],
    \<lparr>world = 0,
     issued = [Fetch ''http://example.com/gone'' (manual ''HEAD'')],
     reported = [],
     URIs =
       [\<lparr>node = example_link ''[a](http://%E0%A4%A@example.com/)''
                  ''http://%E0%A4%A@example.com/'',
         uri = ''http://%E0%A4%A@example.com/'', index = 4\<rparr>,
        \<lparr>node = example_link ''[b](http://example.com/gone)'' ''http://example.com/gone'',
         uri = ''http://example.com/gone'', index = 4\<rparr>]\<rparr>)"
  by (simp add: Document_exit_def lint_started_def lint_resolved_started_def isLocal_throws_def
      Link_handler_def isChildNode_def indexOf_def or_else_number_def isIgnored_def
      isRelative_def isLocal_def choose_method_def DEFAULT_OPTIONS_def example_throws_def
      example_defs)

end
